theory Spec2Isabelle
  imports Complex_Main "HOL-Library.AList" "HOL-Library.Sublist"
begin

section \<open>XML elements, Python values, exceptions and platform calls\<close>

text \<open>
  The script \<^verbatim>\<open>Scripts/CreateUPDM.py\<close> is one flat sequence of procedures over the
  arcpy toolbox and \<^verbatim>\<open>xml.etree.ElementTree\<close>. The model follows Python 3: \<open>/\<close> is
  true division, a dictionary keeps its insertion order, and comparing a string with a
  number raises \<^verbatim>\<open>TypeError\<close>.

  An \<^verbatim>\<open>ElementTree\<close> element has a tag, an attribute dictionary (insertion ordered, so
  an association list), text (here \<open>elem_text\<close>), tail and a list of children.
\<close>

datatype elem =
  Elem (tag: string) (attrib: "(string \<times> string) list") (elem_text: "string option")
       (tail: "string option") (children: "elem list")

text \<open>
  Exceptions are values of the type \<open>error\<close>; a procedure that can raise returns
  \<open>error + 'a\<close> with \<open>Inl\<close> for the exception. \<open>ExecuteError\<close> is
  \<^verbatim>\<open>arcpy.ExecuteError\<close> with its message; the others are the built-in exceptions
  the code can meet (\<^verbatim>\<open>None.find\<close>, a missing dictionary key, \<^verbatim>\<open>float(None)\<close>, ...).
\<close>

datatype error =
    ExecuteError string
  | AttributeError
  | KeyError
  | NameError
  | TypeError
  | ValueError
  | ZeroDivisionError

text \<open>
  The spatial reference object of arcpy, as far as the script reads it. Reading
  \<^verbatim>\<open>metersPerUnit\<close> may raise, which \<^verbatim>\<open>getMetersPerUnit\<close> handles.
\<close>

record spatialReference =
  XYTolerance :: rat
  ZTolerance :: rat
  metersPerUnit :: "error + rat"
  srType :: string

text \<open>
  What \<^verbatim>\<open>arcpy.GetParameter\<close> can hand to the script: \<^verbatim>\<open>None\<close>, a string, a number,
  a boolean or a spatial reference object.
\<close>

datatype pyval = PyNone | PyStr string | PyNum rat | PyBool bool | PySR spatialReference

text \<open>
  The calls into the platform that leave a trace: messages, progressor labels, the calls
  that change the target geodatabase, and the calls on the scratch workspace (a scratch
  feature class, its export, the removal of a scratch file). The import call carries the
  document that was written to the scratch file it reads.
\<close>

datatype call =
    AddMessage string
  | AddWarning string
  | AddError string
  | SetProgressorLabel string
  | Delete_management string
  | DeleteDomain_management string string
  | ImportXMLWorkspaceDocument_management string elem string
  | AddIndex_management string "string list" string string string
  | CreateFeatureclass_management string pyval
  | ExportXMLWorkspaceDocument_management string string string
  | os_remove string
  | DeleteField_management string string

text \<open>
  A procedure run yields the trace of its platform calls, in order, and either the
  exception that ended it or its return value.
\<close>

type_synonym 'a run = "call list \<times> (error + 'a)"

definition return_run :: "'a \<Rightarrow> 'a run" where
  "return_run x = ([], Inr x)"

definition raise_run :: "error \<Rightarrow> 'a run" where
  "raise_run e = ([], Inl e)"

definition bind_run :: "'a run \<Rightarrow> ('a \<Rightarrow> 'b run) \<Rightarrow> 'b run" where
  "bind_run m f =
     (case m of
        (t, Inl e) \<Rightarrow> (t, Inl e)
      | (t, Inr x) \<Rightarrow> (case f x of (t', r) \<Rightarrow> (t @ t', r)))"

text \<open>
  \<^verbatim>\<open>try: m  except: h; raise\<close>: the handler runs on an exception, which is then
  re-raised (or replaced by the handler's own exception).
\<close>

definition except_reraise :: "'a run \<Rightarrow> unit run \<Rightarrow> 'a run" where
  "except_reraise m h =
     (case m of
        (t, Inl e) \<Rightarrow>
          (case h of (t', Inl e') \<Rightarrow> (t @ t', Inl e') | (t', Inr _) \<Rightarrow> (t @ t', Inl e))
      | (t, Inr x) \<Rightarrow> (t, Inr x))"

text \<open>\<^verbatim>\<open>try: m  finally: h\<close>: the handler runs in either case.\<close>

definition finally_run :: "'a run \<Rightarrow> unit run \<Rightarrow> 'a run" where
  "finally_run m h =
     (case m of (t, r) \<Rightarrow>
        (case h of (t', Inl e') \<Rightarrow> (t @ t', Inl e') | (t', Inr _) \<Rightarrow> (t @ t', r)))"

text \<open>
  The platform, as the script sees it: the tool's parameters, the state of the target
  geodatabase that the pre-flight check reads (\<^verbatim>\<open>arcpy.Exists\<close>, the names of
  \<^verbatim>\<open>arcpy.da.ListDomains\<close>, \<^verbatim>\<open>arcpy.env.overwriteOutput\<close>), for each traced call whether
  it raises, \<^verbatim>\<open>os.path.join\<close>, the scratch names, the workspace document that the
  platform exports for a scratch feature class created with a given spatial reference,
  the text of \<^verbatim>\<open>arcpy.GetMessages()\<close>, and Python's \<^verbatim>\<open>str\<close> of a floating point number
  (floating point formatting is not modelled).
\<close>

record platform =
  GetParameter :: "nat \<Rightarrow> pyval"
  GetParameterAsText :: "nat \<Rightarrow> string"
  Exists :: "string \<Rightarrow> bool"
  ListDomains :: "string \<Rightarrow> string list"
  overwriteOutput :: bool
  raises :: "call \<Rightarrow> error option"
  os_path_join :: "string \<Rightarrow> string \<Rightarrow> string"
  CreateScratchName :: "string \<Rightarrow> string"
  exportedDocument :: "pyval \<Rightarrow> elem"
  GetMessages :: string
  float_str :: "rat \<Rightarrow> string"

text \<open>A traced platform call: it is attempted, and it may raise.\<close>

definition platform_call :: "platform \<Rightarrow> call \<Rightarrow> unit run" where
  "platform_call p c = ([c], case raises p c of Some e \<Rightarrow> Inl e | None \<Rightarrow> Inr ())"

text \<open>A computation that leaves no trace, as a run.\<close>

definition lift_run :: "error + 'a \<Rightarrow> 'a run" where
  "lift_run r = ([], r)"

text \<open>
  A string of the model is a list of 8-bit characters, read as the code points below
  256. On these \<^verbatim>\<open>str.lower()\<close> works character by character: the capital letters
  \<open>A\<close> to \<open>Z\<close> (65 to 90) and the capital letters of the Latin-1 range (192 to 222
  without the multiplication sign 215) move up by 32, every other character is kept.
\<close>

definition lower_char :: "char \<Rightarrow> char" where
  "lower_char c =
     (let n = (of_char c :: nat)
      in if (65 \<le> n \<and> n \<le> 90) \<or> (192 \<le> n \<and> n \<le> 214) \<or> (216 \<le> n \<and> n \<le> 222)
         then char_of (n + 32)
         else c)"

definition lower :: "string \<Rightarrow> string" where
  "lower s = map lower_char s"

text \<open>\<^verbatim>\<open>sep.join(xs)\<close>.\<close>

fun join :: "string \<Rightarrow> string list \<Rightarrow> string" where
  "join sep [] = []"
| "join sep [x] = x"
| "join sep (x # y # ys) = x @ sep @ join sep (y # ys)"

section \<open>Logging\<close>

definition log :: "string \<Rightarrow> unit run" where
  "log message = ([AddMessage message], Inr ())"

definition logWarning :: "string \<Rightarrow> unit run" where
  "logWarning message = ([AddWarning message], Inr ())"

text \<open>
  \<^verbatim>\<open>logError(message, errorMessage=None, raiseError=True)\<close>: the message goes to
  \<^verbatim>\<open>arcpy.AddError\<close>; when \<open>raiseError\<close> holds, \<^verbatim>\<open>arcpy.ExecuteError\<close> is raised
  with \<open>errorMessage\<close>, or with the message itself when that is \<^verbatim>\<open>None\<close>.
\<close>

definition logError :: "string \<Rightarrow> string option \<Rightarrow> bool \<Rightarrow> unit run" where
  "logError message errorMessage raiseError =
     ([AddError message],
      if raiseError
      then Inl (ExecuteError (case errorMessage of None \<Rightarrow> message | Some m \<Rightarrow> m))
      else Inr ())"

section \<open>Unit conversion\<close>

text \<open>
  The table \<^verbatim>\<open>unitsConversions\<close> of \<^verbatim>\<open>convertUnits\<close> (units per meter), in the
  order of the source. The decimal literals of the source are taken as the exact
  rationals they denote.
\<close>

definition unitsConversions :: "(string \<times> rat) list" where
  "unitsConversions =
     [(''centimeters'', 100),
      (''decimeters'', 10),
      (''feet'', 32808398950131 / 10000000000000),
      (''inches'', 39370078740157 / 1000000000000),
      (''kilometers'', 1 / 1000),
      (''meters'', 1),
      (''miles'', 62137119223733 / 100000000000000000),
      (''millimeters'', 1000),
      (''nautical miles'', 53995680345572 / 100000000000000000),
      (''nautical_miles'', 53995680345572 / 100000000000000000),
      (''yards'', 10936132983377 / 10000000000000)]"

text \<open>
  \<^verbatim>\<open>convertUnits(distance, toUnits, fromUnits="Meters")\<close>; a distance or a result is a
  number or \<^verbatim>\<open>None\<close>. The body of the \<^verbatim>\<open>try\<close>:
  \<^item> \<^verbatim>\<open>float(None)\<close> raises \<^verbatim>\<open>TypeError\<close>;
  \<^item> both names are lower-cased when they are not \<^verbatim>\<open>None\<close>;
  \<^item> a missing name, or two equal names, returns the distance unchanged;
  \<^item> a name outside the table goes to \<^verbatim>\<open>logError\<close>, which raises (the function
    would return \<^verbatim>\<open>None\<close> after it);
  \<^item> otherwise the quotient of the two factors times the distance is returned
    (a missing key would raise \<^verbatim>\<open>KeyError\<close>, a zero divisor \<^verbatim>\<open>ZeroDivisionError\<close>).
\<close>

definition convertUnits_body ::
  "rat option \<Rightarrow> string option \<Rightarrow> string option \<Rightarrow> rat option run" where
  "convertUnits_body distance toUnits fromUnits =
     (case distance of
        None \<Rightarrow> raise_run TypeError
      | Some d \<Rightarrow>
          (let toU = map_option lower toUnits;
               fromU = map_option lower fromUnits
           in case (fromU, toU) of
                (Some f, Some t) \<Rightarrow>
                  if f = t then return_run (Some d)
                  else if map_of unitsConversions f = None \<or> map_of unitsConversions t = None
                  then bind_run
                         (logError (''Cannot convert from '' @ f @ '' to '' @ t)
                            (Some ''Cannot calculate m tolerance and resolution.'') True)
                         (\<lambda>_. return_run None)
                  else (case (map_of unitsConversions t, map_of unitsConversions f) of
                          (Some tf, Some ff) \<Rightarrow>
                            if ff = 0 then raise_run ZeroDivisionError
                            else return_run (Some (tf / ff * d))
                        | _ \<Rightarrow> raise_run KeyError)
              | _ \<Rightarrow> return_run (Some d)))"

text \<open>
  The handler of the \<^verbatim>\<open>try\<close> logs the fixed message without raising and re-raises
  what it caught, so every exception of the body leaves through it.
\<close>

definition convertUnits ::
  "rat option \<Rightarrow> string option \<Rightarrow> string option \<Rightarrow> rat option run" where
  "convertUnits distance toUnits fromUnits =
     except_reraise (convertUnits_body distance toUnits fromUnits)
       (logError ''Cannot calculate m tolerance and resolution.'' None False)"

section \<open>Parameter accessors and validation\<close>

text \<open>The positions of the tool's parameters.\<close>

definition outputGDBParam :: nat where
  "outputGDBParam = 0"

definition spatialReferenceParam :: nat where
  "spatialReferenceParam = 1"

definition mUnitsParam :: nat where
  "mUnitsParam = 2"

definition xyToleranceParam :: nat where
  "xyToleranceParam = 3"

definition zToleranceParam :: nat where
  "zToleranceParam = 4"

definition eventRegistrationNetworkParam :: nat where
  "eventRegistrationNetworkParam = 5"

definition registerPipeSystemParam :: nat where
  "registerPipeSystemParam = 6"

definition eventRegistrationNetworkValues :: "(string \<times> string) list" where
  "eventRegistrationNetworkValues =
     [(''ENGINEERING'', ''ENGINEERING''), (''CONTINUOUS'', ''CONTINUOUS'')]"

text \<open>
  The test \<^verbatim>\<open>value is None or value == "" or value == 0\<close> of the accessors. In Python
  \<^verbatim>\<open>False == 0\<close> holds.
\<close>

definition py_eq_zero :: "pyval \<Rightarrow> bool" where
  "py_eq_zero v = (v = PyNum 0 \<or> v = PyBool False)"

definition is_unset :: "pyval \<Rightarrow> bool" where
  "is_unset v = (v = PyNone \<or> v = PyStr [] \<or> py_eq_zero v)"

text \<open>\<^verbatim>\<open>value <= 0\<close>: defined on numbers and booleans, \<^verbatim>\<open>TypeError\<close> otherwise.\<close>

definition py_le_zero :: "pyval \<Rightarrow> error + bool" where
  "py_le_zero v =
     (case v of
        PyNum n \<Rightarrow> Inr (n \<le> 0)
      | PyBool b \<Rightarrow> Inr (\<not> b)
      | _ \<Rightarrow> Inl TypeError)"

definition getOutputGDBParamAsText :: "platform \<Rightarrow> string" where
  "getOutputGDBParamAsText a = GetParameterAsText a outputGDBParam"

definition getSpatialReferenceParam :: "platform \<Rightarrow> pyval" where
  "getSpatialReferenceParam a = GetParameter a spatialReferenceParam"

definition getMUnitsParam :: "platform \<Rightarrow> pyval" where
  "getMUnitsParam a =
     (let v = GetParameter a mUnitsParam in if is_unset v then PyStr ''FEET'' else v)"

definition getMUnitsParamAsText :: "platform \<Rightarrow> string" where
  "getMUnitsParamAsText a =
     (let v = GetParameterAsText a mUnitsParam in if v = [] then ''FEET'' else v)"

text \<open>
  \<^verbatim>\<open>sr.XYTolerance\<close> and \<^verbatim>\<open>sr.ZTolerance\<close>: an attribute of the spatial reference
  object; any other value has no such attribute.
\<close>

definition sr_attr :: "(spatialReference \<Rightarrow> rat) \<Rightarrow> pyval \<Rightarrow> error + pyval" where
  "sr_attr f v = (case v of PySR sr \<Rightarrow> Inr (PyNum (f sr)) | _ \<Rightarrow> Inl AttributeError)"

definition getXYToleranceParam :: "platform \<Rightarrow> error + pyval" where
  "getXYToleranceParam a =
     (let v = GetParameter a xyToleranceParam
      in if is_unset v then sr_attr XYTolerance (getSpatialReferenceParam a) else Inr v)"

definition getZToleranceParam :: "platform \<Rightarrow> error + pyval" where
  "getZToleranceParam a =
     (let v = GetParameter a zToleranceParam
      in if is_unset v then sr_attr ZTolerance (getSpatialReferenceParam a) else Inr v)"

definition getEventRegistrationNetworkParamAsText :: "platform \<Rightarrow> string" where
  "getEventRegistrationNetworkParamAsText a =
     (let v = GetParameterAsText a eventRegistrationNetworkParam
      in if v = [] then ''ENGINEERING'' else v)"

definition getRegisterPipeSystemParam :: "platform \<Rightarrow> pyval" where
  "getRegisterPipeSystemParam a =
     (let v = GetParameter a registerPipeSystemParam
      in if v = PyNone \<or> v = PyStr [] then PyBool False else v)"

text \<open>
  One tolerance check of \<^verbatim>\<open>validateInput\<close>:
  \<^verbatim>\<open>if (t is None or t <= 0): logError(message)\<close>, where reading the tolerance or
  comparing it may raise.
\<close>

definition checkTolerance :: "error + pyval \<Rightarrow> string \<Rightarrow> unit run" where
  "checkTolerance tolerance message =
     (case tolerance of
        Inl e \<Rightarrow> raise_run e
      | Inr t \<Rightarrow>
          if t = PyNone then logError message None True
          else (case py_le_zero t of
                  Inl e \<Rightarrow> raise_run e
                | Inr b \<Rightarrow> if b then logError message None True else return_run ()))"

text \<open>
  \<^verbatim>\<open>validateInput\<close>: six checks in the order of the source, each raising through
  \<^verbatim>\<open>logError\<close>. Texts are strings, so of the tests
  \<^verbatim>\<open>x is None or x == "" or x == 0\<close> on a text only the middle one can hold.
\<close>

definition validateInput :: "platform \<Rightarrow> unit run" where
  "validateInput a =
     bind_run (if getOutputGDBParamAsText a = []
               then logError ''Please provide an Output GDB.'' None True
               else return_run ()) (\<lambda>_.
     bind_run (let sr = getSpatialReferenceParam a
               in if sr = PyNone \<or> py_eq_zero sr
                  then logError ''Please provide a Spatial Reference.'' None True
                  else return_run ()) (\<lambda>_.
     bind_run (if getMUnitsParamAsText a = []
               then logError ''Please provide a Measure Unit.'' None True
               else return_run ()) (\<lambda>_.
     bind_run (checkTolerance (getXYToleranceParam a)
                 ''Please provide an XY Tolerance that is greater than 0.'') (\<lambda>_.
     bind_run (checkTolerance (getZToleranceParam a)
                 ''Please provide a Z Tolerance that is greater than 0.'') (\<lambda>_.
     (let eventRegistrationNetwork = getEventRegistrationNetworkParamAsText a
      in if eventRegistrationNetwork = []
         then logError ''Please provide an Event Measure Storage.'' None True
         else if map_of eventRegistrationNetworkValues eventRegistrationNetwork = None
         then logError (''Event Measure Storage must be one of the following: ''
                          @ join '', '' (map snd eventRegistrationNetworkValues)) None True
         else return_run ()))))))"

section \<open>Numbers as text, progressor\<close>

text \<open>\<^verbatim>\<open>str(n)\<close> for an integer: its decimal digits, with a minus sign when negative.\<close>

definition digit_char :: "nat \<Rightarrow> char" where
  "digit_char n = ''0123456789'' ! n"

function str_nat :: "nat \<Rightarrow> string" where
  "str_nat n = (if n < 10 then [digit_char n] else str_nat (n div 10) @ [digit_char (n mod 10)])"
  by pat_completeness auto
termination
  by (relation "measure id") auto

declare str_nat.simps [simp del]

definition str_int :: "int \<Rightarrow> string" where
  "str_int i = (if i < 0 then CHR ''-'' # str_nat (nat (- i)) else str_nat (nat i))"

text \<open>The progress counter, a dictionary with the keys \<^verbatim>\<open>count\<close> and \<^verbatim>\<open>total\<close>.\<close>

record counter =
  count :: int
  total :: int

text \<open>
  \<^verbatim>\<open>setProgressor(message, counter=None, increment=1)\<close>: with a counter, the count is
  advanced and appended to the message (\<^verbatim>\<open>None + str\<close> raises); the label is set to the
  message, or to the tool's default label when the message is \<^verbatim>\<open>None\<close>. The counter is
  changed in place, so the run returns it.
\<close>

definition setProgressor :: "string option \<Rightarrow> counter option \<Rightarrow> int \<Rightarrow> counter option run" where
  "setProgressor message counter increment =
     (case counter of
        Some c \<Rightarrow>
          (let c' = c\<lparr>count := count c + increment\<rparr>
           in case message of
                None \<Rightarrow> raise_run TypeError
              | Some m \<Rightarrow>
                  ([SetProgressorLabel (m @ str_int (count c') @ ''/'' @ str_int (total c'))],
                   Inr (Some c')))
      | None \<Rightarrow>
          (case message of
             None \<Rightarrow> ([SetProgressorLabel ''Executing Create UPDM Geodatabase...''], Inr None)
           | Some m \<Rightarrow> ([SetProgressorLabel m], Inr None)))"

section \<open>The ElementTree operations the script uses\<close>

text \<open>
  \<^verbatim>\<open>e.find(tag)\<close> is the first child with the tag, \<^verbatim>\<open>e.findall(tag)\<close> all such children
  in order, \<^verbatim>\<open>e.iter(tag)\<close> the element itself and all its descendants with the tag, in
  document order. \<^verbatim>\<open>e.get(key, None)\<close> reads an attribute and \<^verbatim>\<open>e.set(key, value)\<close>
  writes it, keeping the position of a key that is already there.
\<close>

definition find_elem :: "string \<Rightarrow> elem \<Rightarrow> elem option" where
  "find_elem tg e = List.find (\<lambda>c. tag c = tg) (children e)"

definition findall_elem :: "string \<Rightarrow> elem \<Rightarrow> elem list" where
  "findall_elem tg e = filter (\<lambda>c. tag c = tg) (children e)"

fun iter_elem :: "string \<Rightarrow> elem \<Rightarrow> elem list" where
  "iter_elem tg (Elem t a x l cs) =
     (if t = tg then [Elem t a x l cs] else []) @ concat (map (iter_elem tg) cs)"

definition get_attr :: "string \<Rightarrow> elem \<Rightarrow> string option" where
  "get_attr k e = map_of (attrib e) k"

definition set_attr :: "string \<Rightarrow> string \<Rightarrow> elem \<Rightarrow> elem" where
  "set_attr k v e =
     Elem (tag e) (AList.update k v (attrib e)) (elem_text e) (tail e) (children e)"

text \<open>
  \<^verbatim>\<open>getXmlProperty(element, propertyName)\<close>: the text of the first child with that tag,
  \<^verbatim>\<open>None\<close> when there is none.
\<close>

definition getXmlProperty :: "elem option \<Rightarrow> string option \<Rightarrow> string option" where
  "getXmlProperty element propertyName =
     (case (element, propertyName) of
        (Some e, Some n) \<Rightarrow>
          (case find_elem n e of Some propertyValue \<Rightarrow> elem_text propertyValue | None \<Rightarrow> None)
      | _ \<Rightarrow> None)"

text \<open>\<^verbatim>\<open>getFullTableName(table)\<close> joins the output geodatabase and the table name.\<close>

definition getFullTableName :: "platform \<Rightarrow> string \<Rightarrow> string" where
  "getFullTableName p table = os_path_join p (getOutputGDBParamAsText p) table"

section \<open>Pre-flight check of existing names\<close>

text \<open>
  \<^verbatim>\<open>checkDatasetNames(workspaceXmls, gdb)\<close>. The inner loop walks the \<^verbatim>\<open>DataElement\<close>
  children of one document's \<^verbatim>\<open>DatasetDefinitions\<close>, the outer loop the documents;
  \<open>invalidNames\<close> is the list both append to. A missing section makes the next
  \<^verbatim>\<open>find\<close> fail on \<^verbatim>\<open>None\<close>; a data element without a name makes
  \<^verbatim>\<open>os.path.join\<close> in \<^verbatim>\<open>getFullTableName\<close> raise \<^verbatim>\<open>TypeError\<close>.
\<close>

fun checkDataElements :: "platform \<Rightarrow> elem list \<Rightarrow> string list \<Rightarrow> error + string list" where
  "checkDataElements p [] invalidNames = Inr invalidNames"
| "checkDataElements p (dataElement # rest) invalidNames =
     (case getXmlProperty (Some dataElement) (Some ''Name'') of
        None \<Rightarrow> Inl TypeError
      | Some name \<Rightarrow>
          if Exists p (getFullTableName p name)
          then checkDataElements p rest (invalidNames @ [name])
          else checkDataElements p rest invalidNames)"

fun checkDatasetNames_loop :: "platform \<Rightarrow> elem list \<Rightarrow> string list \<Rightarrow> error + string list" where
  "checkDatasetNames_loop p [] invalidNames = Inr invalidNames"
| "checkDatasetNames_loop p (workspaceXml # rest) invalidNames =
     (case find_elem ''WorkspaceDefinition'' workspaceXml of
        None \<Rightarrow> Inl AttributeError
      | Some workspaceDefinition \<Rightarrow>
          (case find_elem ''DatasetDefinitions'' workspaceDefinition of
             None \<Rightarrow> Inl AttributeError
           | Some xmlDatasetDefinitions \<Rightarrow>
               (case checkDataElements p (findall_elem ''DataElement'' xmlDatasetDefinitions)
                       invalidNames of
                  Inl e \<Rightarrow> Inl e
                | Inr invalidNames' \<Rightarrow> checkDatasetNames_loop p rest invalidNames')))"

definition checkDatasetNames :: "platform \<Rightarrow> elem list \<Rightarrow> string \<Rightarrow> error + string list" where
  "checkDatasetNames p workspaceXmls gdb = checkDatasetNames_loop p workspaceXmls []"

text \<open>
  \<^verbatim>\<open>checkDomainNames(workspaceXmls, gdb)\<close>: a domain of a document is invalid when its
  name is among the names of \<^verbatim>\<open>arcpy.da.ListDomains(gdb)\<close>; a domain without a name is
  looked up as \<^verbatim>\<open>None\<close> and not found.
\<close>

fun checkDomains :: "string list \<Rightarrow> elem list \<Rightarrow> string list \<Rightarrow> string list" where
  "checkDomains existingDomains [] invalidNames = invalidNames"
| "checkDomains existingDomains (domain # rest) invalidNames =
     (case getXmlProperty (Some domain) (Some ''DomainName'') of
        Some name \<Rightarrow>
          if name \<in> set existingDomains
          then checkDomains existingDomains rest (invalidNames @ [name])
          else checkDomains existingDomains rest invalidNames
      | None \<Rightarrow> checkDomains existingDomains rest invalidNames)"

fun checkDomainNames_loop :: "platform \<Rightarrow> elem list \<Rightarrow> string \<Rightarrow> string list \<Rightarrow> error + string list" where
  "checkDomainNames_loop p [] gdb invalidNames = Inr invalidNames"
| "checkDomainNames_loop p (workspaceXml # rest) gdb invalidNames =
     (case find_elem ''WorkspaceDefinition'' workspaceXml of
        None \<Rightarrow> Inl AttributeError
      | Some workspaceDefinition \<Rightarrow>
          (case find_elem ''Domains'' workspaceDefinition of
             None \<Rightarrow> Inl AttributeError
           | Some xmlDomains \<Rightarrow>
               checkDomainNames_loop p rest gdb
                 (checkDomains (ListDomains p gdb) (findall_elem ''Domain'' xmlDomains)
                    invalidNames)))"

definition checkDomainNames :: "platform \<Rightarrow> elem list \<Rightarrow> string \<Rightarrow> error + string list" where
  "checkDomainNames p workspaceXmls gdb = checkDomainNames_loop p workspaceXmls gdb []"

text \<open>
  \<^verbatim>\<open>removeDatasets(datasets)\<close> and \<^verbatim>\<open>removeDomains(domains, gdb)\<close>: one delete call
  per name; a failing call is logged and re-raised, which ends the loop.
\<close>

definition counter_of :: "counter option \<Rightarrow> counter \<Rightarrow> counter" where
  "counter_of c d = (case c of Some c' \<Rightarrow> c' | None \<Rightarrow> d)"

fun removeDatasets_loop :: "platform \<Rightarrow> string list \<Rightarrow> counter \<Rightarrow> unit run" where
  "removeDatasets_loop p [] counter = return_run ()"
| "removeDatasets_loop p (invalidDataset # rest) counter =
     bind_run
       (except_reraise
          (bind_run (setProgressor (Some ''Removing conflicting items: '') (Some counter) 1) (\<lambda>c.
           bind_run (platform_call p (Delete_management (getFullTableName p invalidDataset))) (\<lambda>_.
           return_run c)))
          (logError (''Unable to remove item: '' @ invalidDataset) None False))
       (\<lambda>c. removeDatasets_loop p rest (counter_of c counter))"

definition removeDatasets :: "platform \<Rightarrow> string list \<Rightarrow> unit run" where
  "removeDatasets p datasets =
     (if datasets \<noteq> [] \<and> length datasets > 0
      then bind_run (log (''Removing conflicting items ('' @ str_int (int (length datasets))
                            @ '')'')) (\<lambda>_.
           bind_run (removeDatasets_loop p datasets
                       \<lparr>count = 0, total = int (length datasets)\<rparr>) (\<lambda>_.
           bind_run (setProgressor None None 1) (\<lambda>_. return_run ())))
      else return_run ())"

fun removeDomains_loop :: "platform \<Rightarrow> string list \<Rightarrow> string \<Rightarrow> counter \<Rightarrow> unit run" where
  "removeDomains_loop p [] gdb counter = return_run ()"
| "removeDomains_loop p (invalidDomain # rest) gdb counter =
     bind_run
       (except_reraise
          (bind_run (setProgressor (Some ''Removing conflicting domains: '') (Some counter) 1) (\<lambda>c.
           bind_run (platform_call p (DeleteDomain_management gdb invalidDomain)) (\<lambda>_.
           return_run c)))
          (logError (''Unable to remove domain: '' @ invalidDomain) None False))
       (\<lambda>c. removeDomains_loop p rest gdb (counter_of c counter))"

definition removeDomains :: "platform \<Rightarrow> string list \<Rightarrow> string \<Rightarrow> unit run" where
  "removeDomains p domains gdb =
     (if domains \<noteq> [] \<and> length domains > 0
      then bind_run (log (''Removing conflicting domains ('' @ str_int (int (length domains))
                            @ '')'')) (\<lambda>_.
           bind_run (removeDomains_loop p domains gdb
                       \<lparr>count = 0, total = int (length domains)\<rparr>) (\<lambda>_.
           bind_run (setProgressor None None 1) (\<lambda>_. return_run ())))
      else return_run ())"

text \<open>
  \<^verbatim>\<open>checkNames(updmXml, lrsXml, workspace)\<close>: with conflicts, either the conflicting
  items are removed (overwrite on) or one error is raised whose message lists all of them.
\<close>

definition newline :: string where
  "newline = [CHR 0x0A]"

definition conflictMessage :: "string list \<Rightarrow> string list \<Rightarrow> string" where
  "conflictMessage datasets domains =
     (let message = [];
          message =
            (if length datasets > 0
             then message
                  @ ''The following items already exist in the workspace. Please remove them to run this tool.''
                  @ newline @ join newline datasets
             else message);
          message =
            (if length domains > 0
             then (if message \<noteq> [] then message @ newline @ newline else message)
                  @ ''The following domains already exist in the workspace. Please remove them to run this tool.''
                  @ newline @ join newline domains
             else message)
      in message)"

definition checkNames :: "platform \<Rightarrow> elem \<Rightarrow> elem \<Rightarrow> string \<Rightarrow> unit run" where
  "checkNames p updmXml lrsXml workspace =
     bind_run (log ''Checking for existing items'') (\<lambda>_.
     bind_run (lift_run (checkDatasetNames p [updmXml, lrsXml] workspace)) (\<lambda>datasets.
     bind_run (lift_run (checkDomainNames p [updmXml, lrsXml] workspace)) (\<lambda>domains.
     if length datasets > 0 \<or> length domains > 0
     then if overwriteOutput p
          then bind_run (removeDatasets p datasets) (\<lambda>_. removeDomains p domains workspace)
          else (let allItems = datasets @ domains
                in logError (conflictMessage datasets domains)
                     (Some (''Some items already exist in the workspace.'' @ newline @ ''[''
                            @ join '', '' allItems @ '']'')) True)
     else return_run ())))"

section \<open>Indexes\<close>






section \<open>Spatial reference substitution\<close>

text \<open>
  \<^verbatim>\<open>getMetersPerUnit(spatialReference)\<close>: the attribute of the spatial reference; when
  reading it raises \<^verbatim>\<open>NameError\<close>, a geographic spatial reference gets the value at the
  equator and any other re-raises.
\<close>

definition getMetersPerUnit :: "pyval \<Rightarrow> error + rat" where
  "getMetersPerUnit spatialReference =
     (case spatialReference of
        PySR sr \<Rightarrow>
          (case metersPerUnit sr of
             Inr m \<Rightarrow> Inr m
           | Inl NameError \<Rightarrow>
               if lower (srType sr) = ''geographic'' then Inr (1113199 / 10) else Inl NameError
           | Inl e \<Rightarrow> Inl e)
      | _ \<Rightarrow> Inl AttributeError)"

text \<open>
  \<^verbatim>\<open>try: m  except: h\<close> where the handler does not re-raise: the handler's result
  stands for the failed body.
\<close>

definition except_handle :: "'a run \<Rightarrow> 'a run \<Rightarrow> 'a run" where
  "except_handle m h =
     (case m of
        (t, Inl e) \<Rightarrow> (case h of (t', r) \<Rightarrow> (t @ t', r))
      | (t, Inr x) \<Rightarrow> (t, Inr x))"

definition deleteGdbItem :: "platform \<Rightarrow> string \<Rightarrow> unit run" where
  "deleteGdbItem p item =
     (if item \<noteq> []
      then except_handle (platform_call p (Delete_management item))
             (logWarning (''Could not delete '' @ item))
      else return_run ())"

definition deleteFile :: "platform \<Rightarrow> string \<Rightarrow> unit run" where
  "deleteFile p item =
     (if item \<noteq> []
      then except_handle (platform_call p (os_remove item))
             (logWarning (''Could not delete '' @ item))
      else return_run ())"

text \<open>
  \<^verbatim>\<open>getSpatialReferenceXML(spatialReference)\<close>: a scratch feature class with the spatial
  reference is created and exported, and the first \<open>SpatialReference\<close> element of the
  exported document is the result (\<^verbatim>\<open>None\<close> when there is none); the scratch feature
  class and file are deleted in either case.
\<close>

definition getSpatialReferenceXML :: "platform \<Rightarrow> pyval \<Rightarrow> elem option run" where
  "getSpatialReferenceXML p spatialReference =
     (let fcPath = CreateScratchName p ''srFC'';
          xmlPath = CreateScratchName p ''srFC.xml''
      in finally_run
           (bind_run (platform_call p (CreateFeatureclass_management fcPath spatialReference)) (\<lambda>_.
            bind_run (platform_call p
                        (ExportXMLWorkspaceDocument_management fcPath xmlPath ''SCHEMA_ONLY'')) (\<lambda>_.
            return_run (case iter_elem ''SpatialReference'' (exportedDocument p spatialReference) of
                          [] \<Rightarrow> None
                        | sr # _ \<Rightarrow> Some sr))))
           (bind_run (deleteGdbItem p fcPath) (\<lambda>_. deleteFile p xmlPath)))"

text \<open>
  \<^verbatim>\<open>for e in x.iter(tag): e.text = s\<close>: every element with the tag, the root included,
  gets the text.
\<close>

fun set_text_iter :: "string \<Rightarrow> string \<Rightarrow> elem \<Rightarrow> elem" where
  "set_text_iter tg s (Elem t a x l cs) =
     Elem t a (if t = tg then Some s else x) l (map (set_text_iter tg s) cs)"

text \<open>A Python value as a number in arithmetic: a number or a boolean.\<close>

definition py_num :: "pyval \<Rightarrow> error + rat" where
  "py_num v =
     (case v of
        PyNum n \<Rightarrow> Inr n
      | PyBool b \<Rightarrow> Inr (if b then 1 else 0)
      | _ \<Rightarrow> Inl TypeError)"

text \<open>
  The inner \<^verbatim>\<open>_setTandR(newTolerance, toleranceXml, scaleXml)\<close>: the resolution is a tenth
  of the tolerance; the scale \<^verbatim>\<open>1.0/newResolution\<close> is computed in the body of the
  second loop, so a zero resolution raises only when there is a scale element.
\<close>

definition setTandR :: "platform \<Rightarrow> pyval \<Rightarrow> string \<Rightarrow> string \<Rightarrow> elem option \<Rightarrow> error + elem option" where
  "setTandR p newTolerance toleranceXml scaleXml spatialReferenceXml =
     (case py_num newTolerance of
        Inl e \<Rightarrow> Inl e
      | Inr t \<Rightarrow>
          (let newResolution = t * (1 / 10)
           in case spatialReferenceXml of
                None \<Rightarrow> Inl AttributeError
              | Some x \<Rightarrow>
                  (let x' = set_text_iter toleranceXml (float_str p t) x
                   in if iter_elem scaleXml x' = [] then Inr (Some x')
                      else if newResolution = 0 then Inl ZeroDivisionError
                      else Inr (Some (set_text_iter scaleXml (float_str p (1 / newResolution)) x')))))"

text \<open>
  \<^verbatim>\<open>setToleranceAndResolution(spatialReferenceXml, metersPerUnit)\<close> (the second
  parameter is \<open>unitMeters\<close> here). The measure unit is
  a Python value: \<^verbatim>\<open>convertUnits\<close> lower-cases a string and passes \<^verbatim>\<open>None\<close>, and on any
  other value \<^verbatim>\<open>toUnits.lower()\<close> raises \<^verbatim>\<open>AttributeError\<close> inside its \<^verbatim>\<open>try\<close>.
\<close>

definition convertUnits_to :: "rat option \<Rightarrow> pyval \<Rightarrow> rat option run" where
  "convertUnits_to distance toUnits =
     (case toUnits of
        PyStr s \<Rightarrow> convertUnits distance (Some s) (Some ''Meters'')
      | PyNone \<Rightarrow> convertUnits distance None (Some ''Meters'')
      | _ \<Rightarrow>
          (case distance of
             None \<Rightarrow> convertUnits None None (Some ''Meters'')
           | Some _ \<Rightarrow>
               except_reraise (raise_run AttributeError)
                 (logError ''Cannot calculate m tolerance and resolution.'' None False)))"

definition setToleranceAndResolution ::
  "platform \<Rightarrow> elem option \<Rightarrow> rat \<Rightarrow> elem option run" where
  "setToleranceAndResolution p spatialReferenceXml unitMeters =
     (let mUnits = getMUnitsParam p
      in bind_run (lift_run (getXYToleranceParam p)) (\<lambda>newXyTolerance.
         bind_run (lift_run (getZToleranceParam p)) (\<lambda>newZTolerance.
         bind_run (lift_run (py_num newXyTolerance)) (\<lambda>xy.
         bind_run (convertUnits_to (Some (xy * unitMeters)) mUnits) (\<lambda>newMTolerance.
         bind_run (lift_run (setTandR p newXyTolerance ''XYTolerance'' ''XYScale''
                               spatialReferenceXml)) (\<lambda>x1.
         bind_run (lift_run (setTandR p newZTolerance ''ZTolerance'' ''ZScale'' x1)) (\<lambda>x2.
         lift_run (setTandR p (case newMTolerance of Some m \<Rightarrow> PyNum m | None \<Rightarrow> PyNone)
                     ''MTolerance'' ''MScale'' x2))))))))"

text \<open>
  The loop of \<^verbatim>\<open>replaceSpatialReference\<close>. An element object of the parsed document is
  named by its position: the list of child indices that leads to it from the root. The
  loop first collects all \<open>SpatialReference\<close> elements in document order
  (\<^verbatim>\<open>list(updmXml.iter("SpatialReference"))\<close>).
\<close>

type_synonym path = "nat list"

fun iter_paths :: "string \<Rightarrow> elem \<Rightarrow> path list"
  and iter_paths_from :: "string \<Rightarrow> nat \<Rightarrow> elem list \<Rightarrow> path list" where
  "iter_paths tg (Elem t a x l cs) = (if t = tg then [[]] else []) @ iter_paths_from tg 0 cs"
| "iter_paths_from tg i [] = []"
| "iter_paths_from tg i (c # cs) = map ((#) i) (iter_paths tg c) @ iter_paths_from tg (Suc i) cs"

fun subtree :: "elem \<Rightarrow> path \<Rightarrow> elem option" where
  "subtree e [] = Some e"
| "subtree e (i # is) = (if i < length (children e) then subtree (children e ! i) is else None)"

text \<open>
  \<^verbatim>\<open>xmlParentMap = {c:p for p in updmXml.iter() for c in p}\<close>: every element but the root
  is a key, its value is the element one step up.
\<close>

definition xmlParentMap :: "elem \<Rightarrow> path \<Rightarrow> path option" where
  "xmlParentMap updmXml c =
     (if c \<noteq> [] \<and> subtree updmXml c \<noteq> None then Some (butlast c) else None)"

text \<open>
  Each step looks up the parent (\<^verbatim>\<open>KeyError\<close> for the root), finds the index of the
  element among the parent's children, removes the element and inserts the new fragment
  at that index. So no child list of any element ever changes its length or order: a
  step only changes what one slot (a parent and an index) holds, and the index found is
  the index the element had when the document was parsed. The state of the loop is the
  list of slots that hold the new fragment. Elements are compared by identity, and the
  parent is the object that was the parent when the map was built: when that object has
  itself been taken out of the document by an earlier step, the step changes the
  detached subtree and not the document.
\<close>

fun replace_loop :: "elem \<Rightarrow> path list \<Rightarrow> (path \<times> nat) list \<Rightarrow> error + (path \<times> nat) list" where
  "replace_loop updmXml [] slots = Inr slots"
| "replace_loop updmXml (spatialReferenceXml # rest) slots =
     (case xmlParentMap updmXml spatialReferenceXml of
        None \<Rightarrow> Inl KeyError
      | Some parent \<Rightarrow>
          (let index = last spatialReferenceXml
           in replace_loop updmXml rest (slots @ [(parent, index)])))"

text \<open>
  The document after the loop, read from the root: a slot that holds the new fragment
  gives the fragment, any other slot gives the child that was parsed there, read in the
  same way. \<open>q\<close> is the position of the element that is being read.
\<close>

fun rebuild :: "elem \<Rightarrow> (path \<times> nat) list \<Rightarrow> path \<Rightarrow> elem \<Rightarrow> elem"
  and rebuild_children :: "elem \<Rightarrow> (path \<times> nat) list \<Rightarrow> path \<Rightarrow> nat \<Rightarrow> elem list \<Rightarrow> elem list" where
  "rebuild new slots q (Elem t a x l cs) = Elem t a x l (rebuild_children new slots q 0 cs)"
| "rebuild_children new slots q i [] = []"
| "rebuild_children new slots q i (c # cs) =
     (if (q, i) \<in> set slots then new else rebuild new slots (q @ [i]) c)
     # rebuild_children new slots q (Suc i) cs"

text \<open>
  The loop on a document with a given new fragment. \<^verbatim>\<open>parent.insert(index, None)\<close>
  raises \<^verbatim>\<open>TypeError\<close>, so a missing fragment fails at the first element to replace.
\<close>

definition replace_all :: "elem option \<Rightarrow> elem \<Rightarrow> error + elem" where
  "replace_all newSpatialReferenceXml updmXml =
     (case replace_loop updmXml (iter_paths ''SpatialReference'' updmXml) [] of
        Inl e \<Rightarrow> Inl e
      | Inr slots \<Rightarrow>
          (case newSpatialReferenceXml of
             Some new \<Rightarrow> Inr (rebuild new slots [] updmXml)
           | None \<Rightarrow> if slots = [] then Inr updmXml else Inl TypeError))"

definition replaceSpatialReference :: "platform \<Rightarrow> elem \<Rightarrow> elem run" where
  "replaceSpatialReference p updmXml =
     bind_run (log ''Updating spatial references'') (\<lambda>_.
     (let newSpatialReference = getSpatialReferenceParam p
      in bind_run (getSpatialReferenceXML p newSpatialReference) (\<lambda>newSpatialReferenceXml.
         bind_run (lift_run (getMetersPerUnit newSpatialReference)) (\<lambda>unitMeters.
         bind_run (setToleranceAndResolution p newSpatialReferenceXml unitMeters) (\<lambda>new.
         lift_run (replace_all new updmXml))))))"

text \<open>
  \<^verbatim>\<open>populateUpdmWorkspace\<close> and \<^verbatim>\<open>populateLrsWorkspace\<close>: the document is written to a
  scratch file and imported; the scratch file is removed in either case.
\<close>

definition populateUpdmWorkspace :: "platform \<Rightarrow> string \<Rightarrow> elem \<Rightarrow> unit run" where
  "populateUpdmWorkspace p workspace updmXml =
     (let xmlPath = CreateScratchName p ''updm.xml''
      in finally_run
           (bind_run (log ''Populating UPDM'') (\<lambda>_.
            bind_run (platform_call p
                        (ImportXMLWorkspaceDocument_management workspace updmXml ''SCHEMA_ONLY'')) (\<lambda>_.
            log (GetMessages p))))
           (deleteFile p xmlPath))"

definition populateLrsWorkspace :: "platform \<Rightarrow> string \<Rightarrow> elem \<Rightarrow> unit run" where
  "populateLrsWorkspace p workspace lrsXml =
     (let xmlPath = CreateScratchName p ''lrs.xml''
      in finally_run
           (bind_run (log ''Populating LRS'') (\<lambda>_.
            bind_run (platform_call p
                        (ImportXMLWorkspaceDocument_management workspace lrsXml ''DATA'')) (\<lambda>_.
            log (GetMessages p))))
           (deleteFile p xmlPath))"

definition createUpdm :: "platform \<Rightarrow> elem \<Rightarrow> string \<Rightarrow> unit run" where
  "createUpdm p updmXml workspace =
     bind_run (replaceSpatialReference p updmXml) (\<lambda>updmXml'.
     populateUpdmWorkspace p workspace updmXml')"

section \<open>Main\<close>

text \<open>
  \<^verbatim>\<open>getXmlTree(xmlString)\<close> parses the string and sets one attribute of the root; the
  parsed document is what the model starts from.
\<close>

definition getXmlTree :: "elem \<Rightarrow> elem" where
  "getXmlTree parsed = set_attr ''xmlns:xs'' ''http://www.w3.org/2001/XMLSchema'' parsed"

text \<open>
  \<^verbatim>\<open>createLrs(lrsXml, workspace)\<close> imports the LRS document and then works on the
  geodatabase that the import has filled (metadata, indexes, domains, event network,
  versioning). Those later steps are the run \<open>afterImport\<close>.
\<close>

definition createLrs :: "platform \<Rightarrow> elem \<Rightarrow> string \<Rightarrow> unit run \<Rightarrow> unit run" where
  "createLrs p lrsXml workspace afterImport =
     bind_run (populateLrsWorkspace p workspace lrsXml) (\<lambda>_. afterImport)"

text \<open>
  \<^verbatim>\<open>start(updmXmlString, lrsXmlString)\<close>: validation, the pre-flight check of names,
  the UPDM import and the LRS import, in this order; an exception ends the run, and the
  closing message is logged in either case.
\<close>

definition start :: "platform \<Rightarrow> elem \<Rightarrow> elem \<Rightarrow> unit run \<Rightarrow> unit run" where
  "start p updmXmlParsed lrsXmlParsed afterImport =
     finally_run
       (bind_run (log newline) (\<lambda>_.
        bind_run (setProgressor None None 1) (\<lambda>_.
        bind_run (validateInput p) (\<lambda>_.
        (let workspace = getOutputGDBParamAsText p;
             updmXml = getXmlTree updmXmlParsed;
             lrsXml = getXmlTree lrsXmlParsed
         in bind_run (checkNames p updmXml lrsXml workspace) (\<lambda>_.
            bind_run (createUpdm p updmXml workspace) (\<lambda>_.
            createLrs p lrsXml workspace afterImport)))))))
       (log newline)"

text \<open>The import calls of a trace.\<close>

fun is_import :: "call \<Rightarrow> bool" where
  "is_import (ImportXMLWorkspaceDocument_management w d m) = True"
| "is_import _ = False"

text \<open>The calls of a trace that delete from a geodatabase.\<close>

fun is_delete :: "call \<Rightarrow> bool" where
  "is_delete (Delete_management item) = True"
| "is_delete (DeleteDomain_management gdb d) = True"
| "is_delete _ = False"

section \<open>LRS network and event metadata\<close>

text \<open>
  The rows of the table \<open>Lrs_Metadata\<close> hold the metadata document in a BLOB field, and
  the rows of \<open>Lrs_Event_Behavior\<close> a network id. A cursor loop parses the document of
  each row, changes it and writes it back; the model keeps the parsed documents. When a
  procedure raises, the model returns the exception only.
\<close>

record geodatabase =
  Lrs_Metadata :: "elem list"
  Lrs_Event_Behavior :: "int list"

text \<open>
  The element objects that the procedures change are found by \<^verbatim>\<open>find\<close>, which returns
  the first child that matches. In the model the child is named by its index, and the
  changed child is put back at its index.
\<close>

definition find_index :: "('a \<Rightarrow> bool) \<Rightarrow> 'a list \<Rightarrow> nat option" where
  "find_index P xs =
     (case List.find P xs of
        None \<Rightarrow> None
      | Some _ \<Rightarrow> Some (length (takeWhile (\<lambda>x. \<not> P x) xs)))"

definition set_children :: "elem list \<Rightarrow> elem \<Rightarrow> elem" where
  "set_children cs e = Elem (tag e) (attrib e) (elem_text e) (tail e) cs"

definition set_child :: "nat \<Rightarrow> elem \<Rightarrow> elem \<Rightarrow> elem" where
  "set_child i c e = set_children ((children e)[i := c]) e"

text \<open>\<^verbatim>\<open>Network[@Name='...']\<close>: a \<open>Network\<close> element with that name.\<close>

definition is_network :: "string \<Rightarrow> elem \<Rightarrow> bool" where
  "is_network name c = (tag c = ''Network'' \<and> get_attr ''Name'' c = Some name)"

definition find_network :: "string \<Rightarrow> elem \<Rightarrow> elem option" where
  "find_network name networks = List.find (is_network name) (children networks)"

text \<open>\<^verbatim>\<open>if (element):\<close> holds for an element that has children.\<close>

definition has_children :: "elem \<Rightarrow> bool" where
  "has_children e = (children e \<noteq> [])"

text \<open>\<^verbatim>\<open>for eventTable in events.findall("EventTable"): ...\<close> with a loop body \<open>f\<close>.\<close>

definition for_event_tables :: "(elem \<Rightarrow> elem) \<Rightarrow> elem \<Rightarrow> elem" where
  "for_event_tables f events =
     set_children (map (\<lambda>c. if tag c = ''EventTable'' then f c else c) (children events)) events"

text \<open>\<^verbatim>\<open>xs.remove(x)\<close> for the element at an index, and \<^verbatim>\<open>xs.insert(1, x)\<close>.\<close>

definition remove_at :: "nat \<Rightarrow> 'a list \<Rightarrow> 'a list" where
  "remove_at i xs = take i xs @ drop (Suc i) xs"

definition insert_1 :: "'a \<Rightarrow> 'a list \<Rightarrow> 'a list" where
  "insert_1 x xs = take 1 xs @ [x] @ drop 1 xs"

text \<open>The loop body of \<^verbatim>\<open>setDerivedNetwork\<close>.\<close>

definition derivedEventTable :: "elem \<Rightarrow> elem" where
  "derivedEventTable eventTable =
     (let e1 = set_attr ''DerivedRouteIdFieldName'' ''CONTINROUTEID'' eventTable;
          e2 = set_attr ''DerivedRouteNameFieldName'' ''CONTINROUTENAME'' e1;
          e3 = set_attr ''StoreFieldsFromDerivedNetworkWithEventRecords'' ''true'' e2;
          isPointEvent = get_attr ''IsPointEvent'' e3
      in if isPointEvent = Some ''true''
         then set_attr ''DerivedFromMeasureFieldName'' ''CONTINM'' e3
         else set_attr ''DerivedToMeasureFieldName'' ''CONTINTOM''
                (set_attr ''DerivedFromMeasureFieldName'' ''CONTINFROMM'' e3))"

text \<open>
  \<^verbatim>\<open>setDerivedNetwork\<close> on the document of one row: the continuous network, when found
  and not without children, is marked as derived; the event tables of the engineering
  network, when found and not without children, get the derived fields.
\<close>

definition setDerivedNetwork_row :: "elem \<Rightarrow> error + elem" where
  "setDerivedNetwork_row metadataXml =
     (case find_index (\<lambda>c. tag c = ''Networks'') (children metadataXml) of
        None \<Rightarrow> Inl AttributeError
      | Some ni \<Rightarrow>
          (let networks = children metadataXml ! ni;
               continuousNetwork = find_index (is_network ''P_ContinuousNetwork'') (children networks);
               engineeringNetwork = find_index (is_network ''P_EngineeringNetwork'') (children networks);
               networks1 =
                 (case continuousNetwork of
                    None \<Rightarrow> networks
                  | Some ci \<Rightarrow>
                      if has_children (children networks ! ci)
                      then set_child ci
                             (set_attr ''IsDerived'' ''true''
                                (set_attr ''DerivedFromNetwork'' ''2'' (children networks ! ci)))
                             networks
                      else networks)
           in case engineeringNetwork of
                None \<Rightarrow> Inr (set_child ni networks1 metadataXml)
              | Some ei \<Rightarrow>
                  (let en = children networks1 ! ei
                   in if has_children en
                      then (case find_index (\<lambda>c. tag c = ''EventTables'') (children en) of
                              None \<Rightarrow> Inl AttributeError
                            | Some k \<Rightarrow>
                                (let events = for_event_tables derivedEventTable (children en ! k)
                                 in Inr (set_child ni
                                           (set_child ei (set_child k events en) networks1)
                                           metadataXml)))
                      else Inr (set_child ni networks1 metadataXml))))"

text \<open>The loop body of \<^verbatim>\<open>updateContinuousMetadata\<close>.\<close>

definition continuousEventTable :: "elem \<Rightarrow> elem" where
  "continuousEventTable eventTable =
     (let e1 = set_attr ''ToRouteIdFieldName'' [] eventTable;
          e2 = set_attr ''ToRouteNameFieldName'' [] e1;
          e3 = set_attr ''RouteIdFieldName'' ''CONTINROUTEID'' e2;
          e4 = set_attr ''RouteNameFieldName'' ''CONTINROUTENAME'' e3;
          isPointEvent = get_attr ''IsPointEvent'' e4
      in if isPointEvent = Some ''true''
         then set_attr ''FromMeasureFieldName'' ''CONTINM'' e4
         else set_attr ''ToMeasureFieldName'' ''CONTINTOM''
                (set_attr ''FromMeasureFieldName'' ''CONTINFROMM'' e4))"

text \<open>
  \<^verbatim>\<open>updateContinuousMetadata\<close> on the document of one row. A network that is not found
  makes the next \<^verbatim>\<open>find\<close> fail on \<^verbatim>\<open>None\<close>, and so does a missing \<open>EventTables\<close>
  element of the engineering network; a missing one of the continuous network makes
  \<^verbatim>\<open>remove(None)\<close> fail. The event tables of the engineering network are rewritten, then
  the two \<open>EventTables\<close> elements are taken out of their networks and each is inserted
  at index 1 of the other network.
\<close>

definition updateContinuousMetadata_row :: "elem \<Rightarrow> error + elem" where
  "updateContinuousMetadata_row metadataXml =
     (case find_index (\<lambda>c. tag c = ''Networks'') (children metadataXml) of
        None \<Rightarrow> Inl AttributeError
      | Some ni \<Rightarrow>
          (let networks = children metadataXml ! ni
           in case find_index (is_network ''P_ContinuousNetwork'') (children networks) of
                None \<Rightarrow> Inl AttributeError
              | Some ci \<Rightarrow>
                  (case find_index (is_network ''P_EngineeringNetwork'') (children networks) of
                     None \<Rightarrow> Inl AttributeError
                   | Some si \<Rightarrow>
                       (let continuousNetwork = children networks ! ci;
                            stationNetwork = children networks ! si;
                            emptyEvents = find_index (\<lambda>c. tag c = ''EventTables'')
                                            (children continuousNetwork)
                        in case find_index (\<lambda>c. tag c = ''EventTables'')
                                  (children stationNetwork) of
                             None \<Rightarrow> Inl AttributeError
                           | Some k \<Rightarrow>
                               (let events = for_event_tables continuousEventTable
                                               (children stationNetwork ! k)
                                in case emptyEvents of
                                     None \<Rightarrow> Inl TypeError
                                   | Some m \<Rightarrow>
                                       (let continuousNetwork' =
                                              set_children
                                                (insert_1 events
                                                   (remove_at m (children continuousNetwork)))
                                                continuousNetwork;
                                            stationNetwork' =
                                              set_children
                                                (insert_1 (children continuousNetwork ! m)
                                                   (remove_at k (children stationNetwork)))
                                                stationNetwork
                                        in Inr (set_child ni
                                                  (set_child si stationNetwork'
                                                     (set_child ci continuousNetwork' networks))
                                                  metadataXml)))))))"

text \<open>The cursor loop over the rows.\<close>

fun cursor_rows :: "(elem \<Rightarrow> error + elem) \<Rightarrow> elem list \<Rightarrow> error + elem list" where
  "cursor_rows f [] = Inr []"
| "cursor_rows f (row # rows) =
     (case f row of
        Inl e \<Rightarrow> Inl e
      | Inr row' \<Rightarrow> (case cursor_rows f rows of Inl e \<Rightarrow> Inl e | Inr rows' \<Rightarrow> Inr (row' # rows')))"

definition setDerivedNetwork :: "geodatabase \<Rightarrow> error + geodatabase" where
  "setDerivedNetwork g =
     (case cursor_rows setDerivedNetwork_row (Lrs_Metadata g) of
        Inl e \<Rightarrow> Inl e
      | Inr rows \<Rightarrow> Inr (g\<lparr>Lrs_Metadata := rows\<rparr>))"

definition updateContinuousMetadata :: "geodatabase \<Rightarrow> error + geodatabase" where
  "updateContinuousMetadata g =
     (case cursor_rows updateContinuousMetadata_row (Lrs_Metadata g) of
        Inl e \<Rightarrow> Inl e
      | Inr rows \<Rightarrow> Inr (g\<lparr>Lrs_Metadata := rows\<rparr>))"

text \<open>\<^verbatim>\<open>updateEventBehaviorTable\<close>: every row gets the network id 1.\<close>

definition updateEventBehaviorTable :: "geodatabase \<Rightarrow> geodatabase" where
  "updateEventBehaviorTable g = g\<lparr>Lrs_Event_Behavior := map (\<lambda>_. 1) (Lrs_Event_Behavior g)\<rparr>"

text \<open>
  \<^verbatim>\<open>removeEngineeringFields(lrsMetadata)\<close>: the named event tables of the metadata
  document are split into line and point events, and the engineering fields are deleted
  from each, the line events first.
\<close>

fun platform_calls :: "platform \<Rightarrow> call list \<Rightarrow> unit run" where
  "platform_calls p [] = return_run ()"
| "platform_calls p (c # cs) = bind_run (platform_call p c) (\<lambda>_. platform_calls p cs)"

definition removeEngineeringFields :: "platform \<Rightarrow> elem option \<Rightarrow> unit run" where
  "removeEngineeringFields p lrsMetadata =
     (case lrsMetadata of
        None \<Rightarrow> raise_run AttributeError
      | Some md \<Rightarrow>
          (let named = filter (\<lambda>e. get_attr ''Name'' e \<noteq> None) (iter_elem ''EventTable'' md);
               fullName = (\<lambda>e. getFullTableName p (case get_attr ''Name'' e of Some n \<Rightarrow> n | None \<Rightarrow> []));
               lineEvents = map fullName
                              (filter (\<lambda>e. get_attr ''IsPointEvent'' e \<noteq> Some ''true'') named);
               pointEvents = map fullName
                               (filter (\<lambda>e. get_attr ''IsPointEvent'' e = Some ''true'') named)
           in bind_run
                (platform_calls p
                   (concat (map (\<lambda>event. map (DeleteField_management event)
                                   [''ENGROUTEID'', ''ENGROUTENAME'', ''ENGTOROUTEID'',
                                    ''ENGTOROUTENAME'', ''ENGFROMM'', ''ENGTOM''])
                              lineEvents)))
                (\<lambda>_. platform_calls p
                        (concat (map (\<lambda>event. map (DeleteField_management event)
                                        [''ENGROUTEID'', ''ENGROUTENAME'', ''ENGM''])
                                   pointEvents)))))"

text \<open>
  \<^verbatim>\<open>updateEventNetwork(lrsMetadata)\<close>: the branch is chosen by the event registration
  network parameter; any other value does nothing.
\<close>

definition updateEventNetwork :: "platform \<Rightarrow> elem option \<Rightarrow> geodatabase \<Rightarrow> geodatabase run" where
  "updateEventNetwork p lrsMetadata g =
     (let eventNetwork = getEventRegistrationNetworkParamAsText p
      in if Some eventNetwork = map_of eventRegistrationNetworkValues ''CONTINUOUS''
         then bind_run (log ''Updating event network'') (\<lambda>_.
              bind_run (return_run (updateEventBehaviorTable g)) (\<lambda>g1.
              bind_run (removeEngineeringFields p lrsMetadata) (\<lambda>_.
              lift_run (updateContinuousMetadata g1))))
         else if Some eventNetwork = map_of eventRegistrationNetworkValues ''ENGINEERING''
         then bind_run (log ''Setting derived network'') (\<lambda>_. lift_run (setDerivedNetwork g))
         else return_run g)"

section \<open>Auxiliary definitions for the proofs\<close>



section \<open>Elements below an element\<close>

text \<open>The elements with a tag that lie strictly below an element.\<close>

definition below_elem :: "string \<Rightarrow> elem \<Rightarrow> elem list" where
  "below_elem tg e = concat (map (iter_elem tg) (children e))"

section \<open>The declared names, as the specification words them\<close>





section \<open>Traces and invalid inputs\<close>

text \<open>A run that never makes a call of a given kind.\<close>

definition never :: "(call \<Rightarrow> bool) \<Rightarrow> 'a run \<Rightarrow> bool" where
  "never P m = (filter P (fst m) = [])"

text \<open>
  An input that the validation pass is to reject: no output geodatabase, no spatial
  reference, a tolerance that is read as a number and is not positive, or an event
  registration network (after the default) that is none of the two known values.
\<close>

definition invalid_input :: "platform \<Rightarrow> bool" where
  "invalid_input p =
     (GetParameterAsText p outputGDBParam = []
      \<or> GetParameter p spatialReferenceParam = PyNone
      \<or> (case getXYToleranceParam p of Inr (PyNum t) \<Rightarrow> t \<le> 0 | _ \<Rightarrow> False)
      \<or> (case getZToleranceParam p of Inr (PyNum t) \<Rightarrow> t \<le> 0 | _ \<Rightarrow> False)
      \<or> getEventRegistrationNetworkParamAsText p \<notin> {''ENGINEERING'', ''CONTINUOUS''})"

section \<open>Spatial reference substitution, as the specification words it\<close>

text \<open>
  Every \<open>SpatialReference\<close> element that does not lie inside another one is replaced
  by the new fragment, at its place among its siblings; this is the effect of the loop
  on a document whose root is not a \<open>SpatialReference\<close> element.
\<close>

fun replace_outermost :: "elem \<Rightarrow> elem \<Rightarrow> elem" where
  "replace_outermost new (Elem t a x l cs) =
     Elem t a x l
       (map (\<lambda>c. if tag c = ''SpatialReference'' then new else replace_outermost new c) cs)"

text \<open>A document in which no \<open>SpatialReference\<close> element lies inside another one.\<close>

definition sr_flat :: "elem \<Rightarrow> bool" where
  "sr_flat doc =
     list_all (\<lambda>e. below_elem ''SpatialReference'' e = []) (iter_elem ''SpatialReference'' doc)"

text \<open>
  A document with its \<open>SpatialReference\<close> elements blanked: what is left is all of the
  document that lies outside these elements, with the places they take among their
  siblings.
\<close>

definition blank_sr :: "elem \<Rightarrow> elem" where
  "blank_sr doc = replace_outermost (Elem ''SpatialReference'' [] None None []) doc"

section \<open>The layout of the LRS metadata and the mode postconditions\<close>

text \<open>
  The layout of the metadata document in the embedded LRS workspace: a \<open>Networks\<close>
  element with the continuous and the engineering network, each with an \<open>EventTables\<close>
  element, where all \<open>EventTable\<close> elements of the document are the children of the
  \<open>EventTables\<close> element of the engineering network (the one of the continuous network
  is empty, as its name \<^verbatim>\<open>emptyEvents\<close> in \<^verbatim>\<open>updateContinuousMetadata\<close> says).
\<close>

definition lrs_layout :: "elem \<Rightarrow> bool" where
  "lrs_layout metadataXml =
     (case find_elem ''Networks'' metadataXml of
        None \<Rightarrow> False
      | Some networks \<Rightarrow>
          (case (find_network ''P_ContinuousNetwork'' networks,
                 find_network ''P_EngineeringNetwork'' networks) of
             (Some continuousNetwork, Some engineeringNetwork) \<Rightarrow>
               (case (find_elem ''EventTables'' continuousNetwork,
                      find_elem ''EventTables'' engineeringNetwork) of
                  (Some emptyEvents, Some events) \<Rightarrow>
                    iter_elem ''EventTable'' metadataXml = findall_elem ''EventTable'' events
                | _ \<Rightarrow> False)
           | _ \<Rightarrow> False))"

text \<open>
  What the engineering mode is to establish for an event table: the derived fields are
  stored, the derived route fields are the fixed fields of the continuous network, and
  the derived measure fields are set, one for a point event, a pair for a line event.
\<close>

definition derived_fields_set :: "elem \<Rightarrow> bool" where
  "derived_fields_set eventTable =
     (get_attr ''StoreFieldsFromDerivedNetworkWithEventRecords'' eventTable = Some ''true''
      \<and> get_attr ''DerivedRouteIdFieldName'' eventTable = Some ''CONTINROUTEID''
      \<and> get_attr ''DerivedRouteNameFieldName'' eventTable = Some ''CONTINROUTENAME''
      \<and> (if get_attr ''IsPointEvent'' eventTable = Some ''true''
          then get_attr ''DerivedFromMeasureFieldName'' eventTable = Some ''CONTINM''
          else get_attr ''DerivedFromMeasureFieldName'' eventTable = Some ''CONTINFROMM''
               \<and> get_attr ''DerivedToMeasureFieldName'' eventTable = Some ''CONTINTOM''))"

text \<open>An event table without a non-empty \<open>ToRouteIdFieldName\<close> attribute.\<close>

definition no_to_route_id :: "elem \<Rightarrow> bool" where
  "no_to_route_id eventTable =
     (get_attr ''ToRouteIdFieldName'' eventTable = None
      \<or> get_attr ''ToRouteIdFieldName'' eventTable = Some [])"


text \<open>
  The network with a name in a metadata document, the \<open>EventTable\<close> elements that lie
  under it, and the \<open>EventTable\<close> children of its \<open>EventTables\<close> element.
\<close>

definition network_of :: "string \<Rightarrow> elem \<Rightarrow> elem option" where
  "network_of name metadataXml =
     (case find_elem ''Networks'' metadataXml of
        None \<Rightarrow> None
      | Some networks \<Rightarrow> find_network name networks)"

definition event_tables_under :: "string \<Rightarrow> elem \<Rightarrow> elem list" where
  "event_tables_under name metadataXml =
     (case network_of name metadataXml of
        None \<Rightarrow> []
      | Some network \<Rightarrow> iter_elem ''EventTable'' network)"

definition event_list_of :: "string \<Rightarrow> elem \<Rightarrow> elem list option" where
  "event_list_of name metadataXml =
     (case network_of name metadataXml of
        None \<Rightarrow> None
      | Some network \<Rightarrow>
          (case find_elem ''EventTables'' network of
             None \<Rightarrow> None
           | Some events \<Rightarrow> Some (findall_elem ''EventTable'' events)))"
section \<open>Example runs\<close>

text \<open>
  A run that sets only the output geodatabase and the spatial reference: every other
  parameter is left to its default.
\<close>

definition defaults_run :: platform where
  "defaults_run =
     \<lparr>GetParameter = (\<lambda>i. if i = 1
                            then PySR \<lparr>XYTolerance = 1 / 1000, ZTolerance = 1 / 1000,
                                       metersPerUnit = Inr 1, srType = ''Projected''\<rparr>
                            else PyNone),
      GetParameterAsText = (\<lambda>i. if i = 0 then ''C:/data/updm.gdb'' else []),
      Exists = (\<lambda>_. False),
      ListDomains = (\<lambda>_. []),
      overwriteOutput = False,
      raises = (\<lambda>_. None),
      os_path_join = (\<lambda>d f. d @ ''/'' @ f),
      CreateScratchName = (\<lambda>n. ''C:/scratch/'' @ n),
      exportedDocument = (\<lambda>_. Elem ''SpatialReference'' [] None None []),
      GetMessages = ''Succeeded'',
      float_str = (\<lambda>_. ''0.0'')\<rparr>"


text \<open>
  Two small workspace documents declaring five datasets and one domain, and a run on a
  geodatabase in which two of the datasets and the domain exist, with the overwrite
  switch off. A third document declares a feature class inside a feature dataset, with
  a run on a geodatabase in which a dataset with the name of the feature class exists.
\<close>

definition node :: "string \<Rightarrow> elem list \<Rightarrow> elem" where
  "node t cs = Elem t [] None None cs"

definition leaf :: "string \<Rightarrow> string \<Rightarrow> elem" where
  "leaf t x = Elem t [] (Some x) None []"

definition updm_example :: elem where
  "updm_example =
     node ''esri:Workspace''
       [node ''WorkspaceDefinition''
          [node ''Domains'' [],
           node ''DatasetDefinitions''
             [node ''DataElement'' [leaf ''CatalogPath'' ''/FD=P_Integrity'', leaf ''Name'' ''P_Integrity''],
              node ''DataElement'' [leaf ''CatalogPath'' ''/FC=P_PipeSystem'', leaf ''Name'' ''P_PipeSystem''],
              node ''DataElement'' [leaf ''CatalogPath'' ''/FC=P_Valve'', leaf ''Name'' ''P_Valve'']]],
        node ''WorkspaceData'' []]"

definition lrs_example :: elem where
  "lrs_example =
     node ''esri:Workspace''
       [node ''WorkspaceDefinition''
          [node ''Domains'' [node ''Domain'' [leaf ''DomainName'' ''dLRSNetworks'']],
           node ''DatasetDefinitions''
             [node ''DataElement'' [leaf ''Name'' ''Lrs_Metadata''],
              node ''DataElement'' [leaf ''Name'' ''Lrs_Locks'']]],
        node ''WorkspaceData'' []]"




text \<open>
  A run whose XY tolerance parameter is zero, a run whose XY tolerance parameter and
  spatial reference XY tolerance are both zero, a run whose XY tolerance parameter is
  negative, and a run with the measure unit \<open>FURLONGS\<close>, the overwrite switch on and
  one declared dataset already in the geodatabase.
\<close>

definition zero_xy_run :: platform where
  "zero_xy_run =
     defaults_run\<lparr>GetParameter := (\<lambda>i. if i = 3 then PyNum 0 else GetParameter defaults_run i)\<rparr>"

definition zero_xy_unset_run :: platform where
  "zero_xy_unset_run =
     defaults_run
       \<lparr>GetParameter :=
          (\<lambda>i. if i = 3 then PyNum 0
               else if i = 1
               then PySR \<lparr>XYTolerance = 0, ZTolerance = 1 / 1000, metersPerUnit = Inr 1,
                          srType = ''Projected''\<rparr>
               else GetParameter defaults_run i)\<rparr>"

definition negative_xy_run :: platform where
  "negative_xy_run =
     defaults_run\<lparr>GetParameter := (\<lambda>i. if i = 3 then PyNum (- 1) else GetParameter defaults_run i)\<rparr>"

definition furlongs_run :: platform where
  "furlongs_run =
     defaults_run
       \<lparr>GetParameter := (\<lambda>i. if i = 2 then PyStr ''FURLONGS'' else GetParameter defaults_run i),
        GetParameterAsText :=
          (\<lambda>i. if i = 2 then ''FURLONGS'' else GetParameterAsText defaults_run i),
        Exists := (\<lambda>f. f = ''C:/data/updm.gdb/P_PipeSystem''),
        overwriteOutput := True\<rparr>"

definition missing_gdb_run :: platform where
  "missing_gdb_run = defaults_run\<lparr>GetParameterAsText := (\<lambda>_. [])\<rparr>"

text \<open>
  A document with two \<open>SpatialReference\<close> elements under different parents, a document
  with one \<open>SpatialReference\<close> element inside another, and a fragment.
\<close>

definition sr_fragment :: elem where
  "sr_fragment = node ''SpatialReference'' [leaf ''WKT'' ''PROJCS'', leaf ''XYTolerance'' ''0.001'']"

definition flat_doc :: elem where
  "flat_doc =
     node ''esri:Workspace''
       [node ''DataElement''
          [leaf ''Name'' ''P_Valve'',
           node ''SpatialReference'' [leaf ''WKT'' ''GEOGCS''],
           node ''Fields''
             [node ''GeometryDef'' [leaf ''AvgNumPoints'' ''0'',
                                    node ''SpatialReference'' [leaf ''WKT'' ''GEOGCS'']]]]]"

definition nested_doc :: elem where
  "nested_doc =
     node ''esri:Workspace''
       [node ''SpatialReference''
          [leaf ''WKT'' ''GEOGCS'', node ''SpatialReference'' [leaf ''WKT'' ''GEOGCS'']]]"

text \<open>
  A metadata document in the layout of the embedded one, with a point event and a line
  event under the engineering network, and a geodatabase that holds it.
\<close>

definition metadata_example :: elem where
  "metadata_example =
     Elem ''Lrs'' [(''SchemaVersion'', ''10'')] None None
       [node ''Networks''
          [Elem ''Network'' [(''NetworkId'', ''1''), (''Name'', ''P_ContinuousNetwork''),
                             (''IsDerived'', ''false''), (''DerivedFromNetwork'', ''-1'')] None None
             [node ''RouteFieldNames'' [], node ''EventTables'' [],
              node ''IntersectionClasses'' [], leaf ''UnitsOfMeasure'' ''3''],
           Elem ''Network'' [(''NetworkId'', ''2''), (''Name'', ''P_EngineeringNetwork''),
                             (''IsDerived'', ''false''), (''DerivedFromNetwork'', ''-1'')] None None
             [node ''RouteFieldNames'' [],
              node ''EventTables''
                [Elem ''EventTable'' [(''Name'', ''P_Anomaly''), (''RouteIdFieldName'', ''ENGROUTEID''),
                                      (''ToRouteIdFieldName'', ''''), (''IsPointEvent'', ''true'')]
                   None None [],
                 Elem ''EventTable'' [(''Name'', ''P_CenterlineAccuracy''),
                                      (''RouteIdFieldName'', ''ENGROUTEID''),
                                      (''ToRouteIdFieldName'', ''ENGTOROUTEID''),
                                      (''IsPointEvent'', ''false'')]
                   None None []],
              node ''IntersectionClasses'' [], leaf ''UnitsOfMeasure'' ''3'']],
        node ''FieldNames'' []]"

definition gdb_example :: geodatabase where
  "gdb_example = \<lparr>Lrs_Metadata = [metadata_example], Lrs_Event_Behavior = [2, 2]\<rparr>"

definition continuous_run :: platform where
  "continuous_run =
     defaults_run\<lparr>GetParameterAsText :=
       (\<lambda>i. if i = 5 then ''CONTINUOUS'' else GetParameterAsText defaults_run i)\<rparr>"

section \<open>Properties of the unit conversion\<close>







section \<open>Conversion failures\<close>

text \<open>
  C9, as stated, fails: the test \<^verbatim>\<open>fromUnits == toUnits\<close> comes before the table
  lookup, so a call whose two unit names are equal returns the distance also when the
  name is no key of the table. Here the name \<open>furlongs\<close> is converted to itself.
\<close>

theorem convertUnits_equal_unknown_units_counterexample:
  "''furlongs'' \<notin> fst ` set unitsConversions
   \<and> convertUnits (Some 5) (Some ''furlongs'') (Some ''furlongs'') = ([], Inr (Some 5))"
  by (simp add: convertUnits_def convertUnits_body_def except_reraise_def return_run_def
      unitsConversions_def lower_def lower_char_def char_of_def bit_iff_odd)

lemma map_of_unitsConversions_None:
  "map_of unitsConversions k = None \<longleftrightarrow> k \<notin> fst ` set unitsConversions"
  by (rule map_of_eq_None_iff)

text \<open>
  C9, amended. For every call with a distance and two unit names that differ after
  lower-casing, where at least one lower-cased name is not a key of the conversion table,
  \<^verbatim>\<open>convertUnits\<close> returns no value: it logs the two error messages and raises the
  execution error with the fixed message.
\<close>

theorem convertUnits_unknown_unit:
  assumes "lower fromUnits \<noteq> lower toUnits"
    and "lower fromUnits \<notin> fst ` set unitsConversions
         \<or> lower toUnits \<notin> fst ` set unitsConversions"
  shows "convertUnits (Some d) (Some toUnits) (Some fromUnits)
           = ([AddError (''Cannot convert from '' @ lower fromUnits @ '' to '' @ lower toUnits),
               AddError ''Cannot calculate m tolerance and resolution.''],
              Inl (ExecuteError ''Cannot calculate m tolerance and resolution.''))"
  using assms
  by (simp add: convertUnits_def convertUnits_body_def except_reraise_def return_run_def
      bind_run_def logError_def map_of_unitsConversions_None)

theorem convertUnits_unknown_unit_witness:
  "convertUnits (Some 1) (Some ''FURLONGS'') (Some ''Meters'')
     = ([AddError ''Cannot convert from meters to furlongs'',
         AddError ''Cannot calculate m tolerance and resolution.''],
        Inl (ExecuteError ''Cannot calculate m tolerance and resolution.''))"
  using convertUnits_unknown_unit [of "''Meters''" "''FURLONGS''" 1]
  by (simp add: unitsConversions_def lower_def lower_char_def char_of_def bit_iff_odd)

section \<open>Parameter defaults and validation\<close>

lemma not_in_bind_run:
  "c \<notin> set (fst m) \<Longrightarrow> (\<And>x. c \<notin> set (fst (f x))) \<Longrightarrow> c \<notin> set (fst (bind_run m f))"
proof -
  assume a: "c \<notin> set (fst m)" and b: "\<And>x. c \<notin> set (fst (f x))"
  obtain t r where m: "m = (t, r)" by (cases m)
  show ?thesis
  proof (cases r)
    case (Inl e)
    with a m show ?thesis by (simp add: bind_run_def)
  next
    case (Inr x)
    obtain t' r' where fx: "f x = (t', r')" by (cases "f x")
    from b [of x] fx have "c \<notin> set t'" by simp
    with a m Inr fx show ?thesis by (simp add: bind_run_def)
  qed
qed

lemma checkTolerance_message:
  "AddError m' \<in> set (fst (checkTolerance t m)) \<Longrightarrow> m' = m"
  by (auto simp: checkTolerance_def raise_run_def return_run_def logError_def
      split: sum.splits if_splits)

lemma validateInput_never_units:
  "AddError ''Please provide a Measure Unit.'' \<notin> set (fst (validateInput a))"
  unfolding validateInput_def
  by (intro not_in_bind_run)
     (auto simp: logError_def return_run_def getMUnitsParamAsText_def Let_def
       dest: checkTolerance_message)

lemma validateInput_never_network:
  "AddError ''Please provide an Event Measure Storage.'' \<notin> set (fst (validateInput a))"
  unfolding validateInput_def
  by (intro not_in_bind_run)
     (auto simp: logError_def return_run_def getEventRegistrationNetworkParamAsText_def Let_def
       dest: checkTolerance_message)

lemma validateInput_defaults:
  assumes "GetParameterAsText a outputGDBParam \<noteq> []"
    and "GetParameter a spatialReferenceParam = PySR sr"
    and "0 < XYTolerance sr" and "0 < ZTolerance sr"
    and "is_unset (GetParameter a xyToleranceParam)"
    and "is_unset (GetParameter a zToleranceParam)"
    and "GetParameterAsText a eventRegistrationNetworkParam = []"
  shows "validateInput a = ([], Inr ())"
  using assms
  by (simp add: validateInput_def bind_run_def logError_def return_run_def checkTolerance_def
      getOutputGDBParamAsText_def getSpatialReferenceParam_def getMUnitsParamAsText_def
      getXYToleranceParam_def getZToleranceParam_def getEventRegistrationNetworkParamAsText_def
      sr_attr_def py_le_zero_def py_eq_zero_def eventRegistrationNetworkValues_def Let_def)

text \<open>
  C10. The accessors substitute defaults before validation reads the parameters: an unset
  measure unit yields \<open>FEET\<close>, an empty event registration network yields
  \<open>ENGINEERING\<close>, an unset XY (Z) tolerance yields the XY (Z) tolerance of the spatial
  reference, an unset register-pipe-system flag yields \<open>False\<close>. So \<^verbatim>\<open>validateInput\<close>
  accepts a run that gives only an output geodatabase and a spatial reference with
  positive tolerances, and it never reports the measure unit or the event registration
  network as missing.
\<close>

theorem parameter_defaults:
  "(is_unset (GetParameter a mUnitsParam) \<longrightarrow> getMUnitsParam a = PyStr ''FEET'')
   \<and> (GetParameterAsText a mUnitsParam = [] \<longrightarrow> getMUnitsParamAsText a = ''FEET'')
   \<and> (GetParameterAsText a eventRegistrationNetworkParam = []
        \<longrightarrow> getEventRegistrationNetworkParamAsText a = ''ENGINEERING'')
   \<and> (is_unset (GetParameter a xyToleranceParam) \<and> GetParameter a spatialReferenceParam = PySR sr
        \<longrightarrow> getXYToleranceParam a = Inr (PyNum (XYTolerance sr)))
   \<and> (is_unset (GetParameter a zToleranceParam) \<and> GetParameter a spatialReferenceParam = PySR sr
        \<longrightarrow> getZToleranceParam a = Inr (PyNum (ZTolerance sr)))
   \<and> (GetParameter a registerPipeSystemParam = PyNone
        \<or> GetParameter a registerPipeSystemParam = PyStr []
        \<longrightarrow> getRegisterPipeSystemParam a = PyBool False)
   \<and> (GetParameterAsText a outputGDBParam \<noteq> []
        \<and> GetParameter a spatialReferenceParam = PySR sr
        \<and> 0 < XYTolerance sr \<and> 0 < ZTolerance sr
        \<and> is_unset (GetParameter a xyToleranceParam)
        \<and> is_unset (GetParameter a zToleranceParam)
        \<and> GetParameterAsText a eventRegistrationNetworkParam = []
        \<longrightarrow> validateInput a = ([], Inr ()))
   \<and> AddError ''Please provide a Measure Unit.'' \<notin> set (fst (validateInput a))
   \<and> AddError ''Please provide an Event Measure Storage.'' \<notin> set (fst (validateInput a))"
  using validateInput_never_units [of a] validateInput_never_network [of a]
    validateInput_defaults [of a sr]
  by (simp add: getMUnitsParam_def getMUnitsParamAsText_def
      getEventRegistrationNetworkParamAsText_def getXYToleranceParam_def getZToleranceParam_def
      getRegisterPipeSystemParam_def getSpatialReferenceParam_def sr_attr_def Let_def)

theorem parameter_defaults_witness:
  "getMUnitsParam defaults_run = PyStr ''FEET''
   \<and> getMUnitsParamAsText defaults_run = ''FEET''
   \<and> getEventRegistrationNetworkParamAsText defaults_run = ''ENGINEERING''
   \<and> getXYToleranceParam defaults_run = Inr (PyNum (1 / 1000))
   \<and> getZToleranceParam defaults_run = Inr (PyNum (1 / 1000))
   \<and> getRegisterPipeSystemParam defaults_run = PyBool False
   \<and> validateInput defaults_run = ([], Inr ())"
  using parameter_defaults [of defaults_run
      "\<lparr>XYTolerance = 1 / 1000, ZTolerance = 1 / 1000, metersPerUnit = Inr 1,
        srType = ''Projected''\<rparr>"]
  by (simp add: defaults_run_def is_unset_def mUnitsParam_def eventRegistrationNetworkParam_def
      xyToleranceParam_def zToleranceParam_def spatialReferenceParam_def
      registerPipeSystemParam_def outputGDBParam_def)

section \<open>Index names\<close>














section \<open>Conflict detection\<close>











section \<open>Validation before the imports\<close>

lemma start_validation_fails:
  "validateInput p = (tv, Inl e) \<Longrightarrow>
   start p updmXml lrsXml afterImport
     = ([AddMessage newline, SetProgressorLabel ''Executing Create UPDM Geodatabase...'']
          @ tv @ [AddMessage newline], Inl e)"
  by (simp add: start_def finally_run_def bind_run_def log_def setProgressor_def)

lemma validateInput_xy_message:
  assumes "GetParameterAsText p outputGDBParam \<noteq> []"
    and "GetParameter p spatialReferenceParam \<noteq> PyNone"
    and "\<not> py_eq_zero (GetParameter p spatialReferenceParam)"
    and "getXYToleranceParam p = Inr (PyNum t)" and "t \<le> 0"
  shows "validateInput p
           = ([AddError ''Please provide an XY Tolerance that is greater than 0.''],
              Inl (ExecuteError ''Please provide an XY Tolerance that is greater than 0.''))"
  using assms
  by (simp add: validateInput_def bind_run_def logError_def return_run_def checkTolerance_def
      getOutputGDBParamAsText_def getSpatialReferenceParam_def getMUnitsParamAsText_def
      py_le_zero_def Let_def)

lemma validateInput_nonpositive_xy:
  assumes xy: "getXYToleranceParam p = Inr (PyNum t)" and "t \<le> 0"
  shows "\<exists>m. validateInput p = ([AddError m], Inl (ExecuteError m))"
proof (cases "GetParameterAsText p outputGDBParam = []")
  case True
  then show ?thesis
    by (simp add: validateInput_def bind_run_def logError_def getOutputGDBParamAsText_def)
next
  case gdb: False
  show ?thesis
  proof (cases "GetParameter p spatialReferenceParam = PyNone
                \<or> py_eq_zero (GetParameter p spatialReferenceParam)")
    case True
    with gdb show ?thesis
      by (simp add: validateInput_def bind_run_def logError_def return_run_def
          getOutputGDBParamAsText_def getSpatialReferenceParam_def Let_def)
  next
    case False
    with gdb xy assms(2) validateInput_xy_message [of p t] show ?thesis by simp
  qed
qed

lemma effective_xy_tolerance:
  assumes "GetParameter p xyToleranceParam = PyNum t"
  shows "t \<noteq> 0 \<Longrightarrow> getXYToleranceParam p = Inr (PyNum t)"
    and "t = 0 \<Longrightarrow> GetParameter p spatialReferenceParam = PySR sr
         \<Longrightarrow> getXYToleranceParam p = Inr (PyNum (XYTolerance sr))"
  using assms
  by (simp_all add: getXYToleranceParam_def getSpatialReferenceParam_def sr_attr_def
      is_unset_def py_eq_zero_def)

lemma validateInput_positive_xy:
  assumes "getXYToleranceParam p = Inr (PyNum x)" and "0 < x"
  shows "AddError ''Please provide an XY Tolerance that is greater than 0.''
           \<notin> set (fst (validateInput p))"
proof -
  have xy: "checkTolerance (getXYToleranceParam p)
              ''Please provide an XY Tolerance that is greater than 0.'' = return_run ()"
    using assms by (simp add: checkTolerance_def py_le_zero_def)
  show ?thesis
    unfolding validateInput_def xy
    by (intro not_in_bind_run)
       (auto simp: logError_def return_run_def Let_def dest: checkTolerance_message)
qed

text \<open>
  C7, as stated, fails for a zero XY tolerance: \<^verbatim>\<open>getXYToleranceParam\<close> replaces a zero
  parameter by the XY tolerance of the spatial reference before \<^verbatim>\<open>validateInput\<close>
  compares it, so the run below passes validation and goes on to both imports.
\<close>

theorem zero_xy_tolerance_counterexample:
  "GetParameter zero_xy_run xyToleranceParam = PyNum 0
   \<and> validateInput zero_xy_run = ([], Inr ())
   \<and> filter is_import (fst (start zero_xy_run updm_example lrs_example (return_run ())))
       = [ImportXMLWorkspaceDocument_management ''C:/data/updm.gdb'' (getXmlTree updm_example)
            ''SCHEMA_ONLY'',
          ImportXMLWorkspaceDocument_management ''C:/data/updm.gdb'' (getXmlTree lrs_example)
            ''DATA'']"
  by (simp add: start_def finally_run_def bind_run_def log_def setProgressor_def
      zero_xy_run_def defaults_run_def xyToleranceParam_def
      validateInput_def logError_def return_run_def checkTolerance_def
      getOutputGDBParamAsText_def getSpatialReferenceParam_def getMUnitsParamAsText_def
      getXYToleranceParam_def getZToleranceParam_def getEventRegistrationNetworkParamAsText_def
      sr_attr_def py_le_zero_def py_eq_zero_def is_unset_def eventRegistrationNetworkValues_def
      outputGDBParam_def spatialReferenceParam_def mUnitsParam_def zToleranceParam_def
      eventRegistrationNetworkParam_def Let_def
      checkNames_def lift_run_def checkDatasetNames_def checkDomainNames_def
      getXmlTree_def set_attr_def updm_example_def lrs_example_def node_def leaf_def
      find_elem_def findall_elem_def getXmlProperty_def getFullTableName_def
      createUpdm_def createLrs_def replaceSpatialReference_def getSpatialReferenceXML_def
      platform_call_def deleteGdbItem_def deleteFile_def except_handle_def
      getMetersPerUnit_def setToleranceAndResolution_def getMUnitsParam_def py_num_def
      convertUnits_to_def convertUnits_def convertUnits_body_def except_reraise_def
      unitsConversions_def lower_def lower_char_def char_of_def bit_iff_odd setTandR_def replace_all_def
      xmlParentMap_def populateUpdmWorkspace_def populateLrsWorkspace_def)

text \<open>
  C7, amended. For every run whose XY tolerance parameter is a negative number, or is 0
  while the XY tolerance of the given spatial reference is 0 or negative,
  \<^verbatim>\<open>validateInput\<close> logs one error and raises the execution error with that message,
  which is the XY tolerance message when an output geodatabase and a spatial reference
  are given; \<^verbatim>\<open>start\<close> then makes no call but the opening message, the progressor
  label, that error and the closing message: no import is attempted. A parameter of 0
  counts as not set: \<^verbatim>\<open>getXYToleranceParam\<close> replaces it by the XY tolerance of the
  spatial reference, and when that one is positive \<^verbatim>\<open>validateInput\<close> does not report
  the XY tolerance.
\<close>

theorem nonpositive_xy_tolerance_rejected:
  assumes "GetParameter p xyToleranceParam = PyNum t"
  shows "(t < 0 \<or> (t = 0 \<and> GetParameter p spatialReferenceParam = PySR sr
                       \<and> XYTolerance sr \<le> 0) \<longrightarrow>
            (\<exists>m. validateInput p = ([AddError m], Inl (ExecuteError m))
               \<and> (GetParameterAsText p outputGDBParam \<noteq> []
                    \<and> GetParameter p spatialReferenceParam \<noteq> PyNone
                    \<and> \<not> py_eq_zero (GetParameter p spatialReferenceParam)
                    \<longrightarrow> m = ''Please provide an XY Tolerance that is greater than 0.'')
               \<and> start p updmXml lrsXml afterImport
                    = ([AddMessage newline,
                        SetProgressorLabel ''Executing Create UPDM Geodatabase...'',
                        AddError m, AddMessage newline], Inl (ExecuteError m))
               \<and> filter is_import (fst (start p updmXml lrsXml afterImport)) = []))
       \<and> (t = 0 \<and> GetParameter p spatialReferenceParam = PySR sr
            \<longrightarrow> getXYToleranceParam p = Inr (PyNum (XYTolerance sr)))
       \<and> (t = 0 \<and> GetParameter p spatialReferenceParam = PySR sr \<and> 0 < XYTolerance sr
            \<longrightarrow> AddError ''Please provide an XY Tolerance that is greater than 0.''
                  \<notin> set (fst (validateInput p)))"
proof (intro conjI impI)
  assume h: "t < 0 \<or> (t = 0 \<and> GetParameter p spatialReferenceParam = PySR sr
                       \<and> XYTolerance sr \<le> 0)"
  then obtain x where xy: "getXYToleranceParam p = Inr (PyNum x)" and x: "x \<le> 0"
    using effective_xy_tolerance(1) [OF assms] effective_xy_tolerance(2) [OF assms, of sr]
    by (cases "t = 0") auto
  from validateInput_nonpositive_xy [OF xy x]
  obtain m where m: "validateInput p = ([AddError m], Inl (ExecuteError m))" by blast
  have msg: "GetParameterAsText p outputGDBParam \<noteq> []
                \<and> GetParameter p spatialReferenceParam \<noteq> PyNone
                \<and> \<not> py_eq_zero (GetParameter p spatialReferenceParam)
                \<longrightarrow> m = ''Please provide an XY Tolerance that is greater than 0.''"
    using m validateInput_xy_message [of p x] xy x by auto
  have st: "start p updmXml lrsXml afterImport
                = ([AddMessage newline,
                    SetProgressorLabel ''Executing Create UPDM Geodatabase...'',
                    AddError m, AddMessage newline], Inl (ExecuteError m))"
    using start_validation_fails [OF m] by simp
  from m msg st
  show "\<exists>m. validateInput p = ([AddError m], Inl (ExecuteError m))
               \<and> (GetParameterAsText p outputGDBParam \<noteq> []
                    \<and> GetParameter p spatialReferenceParam \<noteq> PyNone
                    \<and> \<not> py_eq_zero (GetParameter p spatialReferenceParam)
                    \<longrightarrow> m = ''Please provide an XY Tolerance that is greater than 0.'')
               \<and> start p updmXml lrsXml afterImport
                    = ([AddMessage newline,
                        SetProgressorLabel ''Executing Create UPDM Geodatabase...'',
                        AddError m, AddMessage newline], Inl (ExecuteError m))
               \<and> filter is_import (fst (start p updmXml lrsXml afterImport)) = []"
    by simp
next
  assume "t = 0 \<and> GetParameter p spatialReferenceParam = PySR sr"
  then show "getXYToleranceParam p = Inr (PyNum (XYTolerance sr))"
    using effective_xy_tolerance(2) [OF assms] by simp
next
  assume h: "t = 0 \<and> GetParameter p spatialReferenceParam = PySR sr \<and> 0 < XYTolerance sr"
  then have "getXYToleranceParam p = Inr (PyNum (XYTolerance sr))"
    using effective_xy_tolerance(2) [OF assms] by simp
  with h show "AddError ''Please provide an XY Tolerance that is greater than 0.''
                  \<notin> set (fst (validateInput p))"
    by (intro validateInput_positive_xy [of p "XYTolerance sr"]) simp_all
qed

theorem nonpositive_xy_tolerance_rejected_witness:
  "start negative_xy_run updm_example lrs_example (return_run ())
     = ([AddMessage newline,
         SetProgressorLabel ''Executing Create UPDM Geodatabase...'',
         AddError ''Please provide an XY Tolerance that is greater than 0.'',
         AddMessage newline],
        Inl (ExecuteError ''Please provide an XY Tolerance that is greater than 0.''))
   \<and> GetParameter zero_xy_unset_run xyToleranceParam = PyNum 0
   \<and> start zero_xy_unset_run updm_example lrs_example (return_run ())
     = ([AddMessage newline,
         SetProgressorLabel ''Executing Create UPDM Geodatabase...'',
         AddError ''Please provide an XY Tolerance that is greater than 0.'',
         AddMessage newline],
        Inl (ExecuteError ''Please provide an XY Tolerance that is greater than 0.''))
   \<and> GetParameter zero_xy_run xyToleranceParam = PyNum 0
   \<and> getXYToleranceParam zero_xy_run = Inr (PyNum (1 / 1000))
   \<and> AddError ''Please provide an XY Tolerance that is greater than 0.''
        \<notin> set (fst (validateInput zero_xy_run))"
proof -
  let ?unset = "\<lparr>XYTolerance = 0, ZTolerance = 1 / 1000, metersPerUnit = Inr 1,
               srType = ''Projected''\<rparr>"
  let ?sr = "\<lparr>XYTolerance = 1 / 1000, ZTolerance = 1 / 1000, metersPerUnit = Inr 1,
              srType = ''Projected''\<rparr>"
  have a: "GetParameter negative_xy_run xyToleranceParam = PyNum (- 1)"
    by (simp add: negative_xy_run_def xyToleranceParam_def)
  have b: "GetParameterAsText negative_xy_run outputGDBParam \<noteq> []
           \<and> GetParameter negative_xy_run spatialReferenceParam \<noteq> PyNone
           \<and> \<not> py_eq_zero (GetParameter negative_xy_run spatialReferenceParam)"
    by (simp add: negative_xy_run_def defaults_run_def outputGDBParam_def
        spatialReferenceParam_def py_eq_zero_def)
  have c: "GetParameter zero_xy_unset_run xyToleranceParam = PyNum 0"
    by (simp add: zero_xy_unset_run_def xyToleranceParam_def)
  have d1: "GetParameterAsText zero_xy_unset_run outputGDBParam \<noteq> []"
    by (simp add: zero_xy_unset_run_def defaults_run_def outputGDBParam_def)
  have d2: "GetParameter zero_xy_unset_run spatialReferenceParam = PySR ?unset"
    by (simp add: zero_xy_unset_run_def spatialReferenceParam_def)
  have d: "GetParameterAsText zero_xy_unset_run outputGDBParam \<noteq> []
           \<and> GetParameter zero_xy_unset_run spatialReferenceParam = PySR ?unset
           \<and> GetParameter zero_xy_unset_run spatialReferenceParam \<noteq> PyNone
           \<and> \<not> py_eq_zero (GetParameter zero_xy_unset_run spatialReferenceParam)"
    using d1 d2 by (simp add: py_eq_zero_def)
  have e: "GetParameter zero_xy_run xyToleranceParam = PyNum 0"
    by (simp add: zero_xy_run_def xyToleranceParam_def)
  have f: "GetParameter zero_xy_run spatialReferenceParam = PySR ?sr"
    by (simp add: zero_xy_run_def defaults_run_def spatialReferenceParam_def
        xyToleranceParam_def)
  from nonpositive_xy_tolerance_rejected [OF a, of ?sr updm_example lrs_example "return_run ()"] b
  have 1: "start negative_xy_run updm_example lrs_example (return_run ())
     = ([AddMessage newline,
         SetProgressorLabel ''Executing Create UPDM Geodatabase...'',
         AddError ''Please provide an XY Tolerance that is greater than 0.'',
         AddMessage newline],
        Inl (ExecuteError ''Please provide an XY Tolerance that is greater than 0.''))"
    by auto
  from nonpositive_xy_tolerance_rejected [OF c, of ?unset updm_example lrs_example "return_run ()"] d
  have 2: "start zero_xy_unset_run updm_example lrs_example (return_run ())
     = ([AddMessage newline,
         SetProgressorLabel ''Executing Create UPDM Geodatabase...'',
         AddError ''Please provide an XY Tolerance that is greater than 0.'',
         AddMessage newline],
        Inl (ExecuteError ''Please provide an XY Tolerance that is greater than 0.''))"
    by auto
  from nonpositive_xy_tolerance_rejected [OF e, of ?sr updm_example lrs_example "return_run ()"] f
  have 3: "getXYToleranceParam zero_xy_run = Inr (PyNum (1 / 1000))
           \<and> AddError ''Please provide an XY Tolerance that is greater than 0.''
                \<notin> set (fst (validateInput zero_xy_run))"
    by simp
  from 1 2 3 c e show ?thesis by simp
qed

text \<open>
  C8, as stated, fails for the measure unit: \<^verbatim>\<open>validateInput\<close> only tests that the
  unit text is not empty, and the accessor has already replaced an empty text by
  \<open>FEET\<close>. In the run below the unit \<open>FURLONGS\<close> passes validation, the pre-flight
  check deletes the conflicting dataset \<open>P_PipeSystem\<close> (the overwrite switch is on), and
  only then \<^verbatim>\<open>convertUnits\<close> rejects the unit, during the spatial reference
  substitution and before the first import.
\<close>

theorem invalid_unit_after_deletion_counterexample:
  "validateInput furlongs_run = ([], Inr ())
   \<and> start furlongs_run updm_example lrs_example (return_run ())
     = ([AddMessage newline,
         SetProgressorLabel ''Executing Create UPDM Geodatabase...'',
         AddMessage ''Checking for existing items'',
         AddMessage ''Removing conflicting items (1)'',
         SetProgressorLabel ''Removing conflicting items: 1/1'',
         Delete_management ''C:/data/updm.gdb/P_PipeSystem'',
         SetProgressorLabel ''Executing Create UPDM Geodatabase...'',
         AddMessage ''Updating spatial references'',
         CreateFeatureclass_management ''C:/scratch/srFC''
           (PySR \<lparr>XYTolerance = 1 / 1000, ZTolerance = 1 / 1000, metersPerUnit = Inr 1,
                   srType = ''Projected''\<rparr>),
         ExportXMLWorkspaceDocument_management ''C:/scratch/srFC'' ''C:/scratch/srFC.xml''
           ''SCHEMA_ONLY'',
         Delete_management ''C:/scratch/srFC'',
         os_remove ''C:/scratch/srFC.xml'',
         AddError ''Cannot convert from meters to furlongs'',
         AddError ''Cannot calculate m tolerance and resolution.'',
         AddMessage newline],
        Inl (ExecuteError ''Cannot calculate m tolerance and resolution.''))"
  by (simp add: start_def finally_run_def bind_run_def log_def setProgressor_def
      furlongs_run_def defaults_run_def xyToleranceParam_def
      validateInput_def logError_def return_run_def checkTolerance_def
      getOutputGDBParamAsText_def getSpatialReferenceParam_def getMUnitsParamAsText_def
      getXYToleranceParam_def getZToleranceParam_def getEventRegistrationNetworkParamAsText_def
      sr_attr_def py_le_zero_def py_eq_zero_def is_unset_def eventRegistrationNetworkValues_def
      outputGDBParam_def spatialReferenceParam_def mUnitsParam_def zToleranceParam_def
      eventRegistrationNetworkParam_def Let_def
      checkNames_def lift_run_def checkDatasetNames_def checkDomainNames_def
      removeDatasets_def removeDomains_def counter_of_def str_int_def str_nat.simps digit_char_def
      getXmlTree_def set_attr_def updm_example_def lrs_example_def node_def leaf_def
      find_elem_def findall_elem_def getXmlProperty_def getFullTableName_def
      createUpdm_def createLrs_def replaceSpatialReference_def getSpatialReferenceXML_def
      platform_call_def deleteGdbItem_def deleteFile_def except_handle_def
      getMetersPerUnit_def setToleranceAndResolution_def getMUnitsParam_def py_num_def
      convertUnits_to_def convertUnits_def convertUnits_body_def except_reraise_def
      unitsConversions_def lower_def lower_char_def char_of_def bit_iff_odd setTandR_def replace_all_def
      xmlParentMap_def populateUpdmWorkspace_def populateLrsWorkspace_def)

lemma never_bind:
  "never P m \<Longrightarrow> (\<And>x. never P (f x)) \<Longrightarrow> never P (bind_run m f)"
proof -
  assume a: "never P m" and b: "\<And>x. never P (f x)"
  obtain t r where m: "m = (t, r)" by (cases m)
  show ?thesis
  proof (cases r)
    case (Inl e)
    with a m show ?thesis by (simp add: bind_run_def never_def)
  next
    case (Inr x)
    obtain t' r' where fx: "f x = (t', r')" by (cases "f x")
    from b [of x] fx have "filter P t' = []" by (simp add: never_def)
    with a m Inr fx show ?thesis by (simp add: bind_run_def never_def)
  qed
qed

lemma never_finally:
  "never P m \<Longrightarrow> never P h \<Longrightarrow> never P (finally_run m h)"
  by (cases m; cases h) (auto simp: finally_run_def never_def split: sum.splits)

lemma never_except_reraise:
  "never P m \<Longrightarrow> never P h \<Longrightarrow> never P (except_reraise m h)"
  by (cases m; cases h) (auto simp: except_reraise_def never_def split: sum.splits)

lemma never_except_handle:
  "never P m \<Longrightarrow> never P h \<Longrightarrow> never P (except_handle m h)"
  by (cases m; cases h) (auto simp: except_handle_def never_def split: sum.splits)

lemma never_basic:
  "never P (return_run x)" "never P (raise_run e)" "never P (lift_run r)"
  "\<not> P (AddMessage s) \<Longrightarrow> never P (log s)"
  "\<not> P (AddWarning s) \<Longrightarrow> never P (logWarning s)"
  "\<not> P (AddError s) \<Longrightarrow> never P (logError s s' b)"
  "(\<And>l. \<not> P (SetProgressorLabel l)) \<Longrightarrow> never P (setProgressor ms c n)"
  "\<not> P c' \<Longrightarrow> never P (platform_call p c')"
  by (auto simp: never_def return_run_def raise_run_def lift_run_def log_def
      logWarning_def logError_def setProgressor_def platform_call_def Let_def
      split: option.splits)

lemma never_validateInput: "(\<And>m. \<not> P (AddError m)) \<Longrightarrow> never P (validateInput p)"
  unfolding validateInput_def checkTolerance_def Let_def
  by (intro never_bind) (auto simp: never_basic split: sum.splits)

lemma never_removeDatasets_loop: "never is_import (removeDatasets_loop p ds c)"
  by (induction ds arbitrary: c)
     (auto intro!: never_bind never_except_reraise simp: never_basic)

lemma never_removeDomains_loop: "never is_import (removeDomains_loop p ds gdb c)"
  by (induction ds arbitrary: c)
     (auto intro!: never_bind never_except_reraise simp: never_basic)

lemma never_checkNames: "never is_import (checkNames p u l w)"
  unfolding checkNames_def removeDatasets_def removeDomains_def Let_def
  by (auto intro!: never_bind
      simp: never_basic never_removeDatasets_loop never_removeDomains_loop)

lemma never_convertUnits: "never is_import (convertUnits d t f)"
  unfolding convertUnits_def convertUnits_body_def Let_def
  by (auto intro!: never_bind never_except_reraise simp: never_basic
      split: option.splits)

lemma never_convertUnits_to: "never is_import (convertUnits_to d t)"
  unfolding convertUnits_to_def
  by (auto intro!: never_except_reraise simp: never_basic never_convertUnits
      split: pyval.splits option.splits)

lemma never_replaceSpatialReference: "never is_import (replaceSpatialReference p doc)"
  unfolding replaceSpatialReference_def getSpatialReferenceXML_def setToleranceAndResolution_def
    deleteGdbItem_def deleteFile_def Let_def
  by (auto intro!: never_bind never_finally never_except_handle
      simp: never_basic never_convertUnits_to)

lemma raises_bind:
  "isl (snd m) \<or> (\<forall>x. isl (snd (f x))) \<Longrightarrow> isl (snd (bind_run m f))"
proof (cases m)
  case (Pair t r)
  assume a: "isl (snd m) \<or> (\<forall>x. isl (snd (f x)))"
  show ?thesis
  proof (cases r)
    case (Inl e)
    with Pair show ?thesis by (simp add: bind_run_def)
  next
    case (Inr x)
    with Pair a have "isl (snd (f x))" by simp
    with Pair Inr show ?thesis by (cases "f x") (simp add: bind_run_def)
  qed
qed

lemma convertUnits_unknown:
  assumes "lower fromUnits \<noteq> lower toUnits"
    and "lower fromUnits \<notin> fst ` set unitsConversions
         \<or> lower toUnits \<notin> fst ` set unitsConversions"
  shows "convertUnits (Some d) (Some toUnits) (Some fromUnits)
           = ([AddError (''Cannot convert from '' @ lower fromUnits @ '' to '' @ lower toUnits),
               AddError ''Cannot calculate m tolerance and resolution.''],
              Inl (ExecuteError ''Cannot calculate m tolerance and resolution.''))"
  using assms
  by (simp add: convertUnits_def convertUnits_body_def except_reraise_def return_run_def
      bind_run_def logError_def map_of_eq_None_iff)

lemma setToleranceAndResolution_unknown_unit:
  assumes "getMUnitsParam p = PyStr u" and "lower u \<notin> fst ` set unitsConversions"
  shows "isl (snd (setToleranceAndResolution p x m))"
proof -
  have "lower ''Meters'' \<in> fst ` set unitsConversions"
    by (simp add: unitsConversions_def lower_def lower_char_def char_of_def bit_iff_odd)
  with assms(2) have ne: "lower ''Meters'' \<noteq> lower u" by metis
  have step: "\<And>d. isl (snd (convertUnits_to (Some d) (PyStr u)))"
    using convertUnits_unknown [OF ne] assms(2) by (simp add: convertUnits_to_def)
  then have conv: "\<And>d. isl (snd (convertUnits_to (Some d) (PyStr u))) \<or> True"
    by simp
  show ?thesis
    unfolding setToleranceAndResolution_def Let_def assms(1)
    apply (rule raises_bind, rule disjI2, rule allI)
    apply (rule raises_bind, rule disjI2, rule allI)
    apply (rule raises_bind, rule disjI2, rule allI)
    apply (rule raises_bind, rule disjI1)
    apply (rule step)
    done
qed


lemma never_bind_raises:
  "never P m \<Longrightarrow> isl (snd m) \<Longrightarrow> never P (bind_run m f)"
  by (cases m) (auto simp: bind_run_def never_def split: sum.splits)

lemma raises_finally: "isl (snd m) \<Longrightarrow> isl (snd (finally_run m h))"
  by (cases m; cases h) (auto simp: finally_run_def split: sum.splits)

lemma raises_replaceSpatialReference:
  assumes "getMUnitsParam p = PyStr u" and "lower u \<notin> fst ` set unitsConversions"
  shows "isl (snd (replaceSpatialReference p doc))"
  unfolding replaceSpatialReference_def Let_def
  apply (rule raises_bind, rule disjI2, rule allI)
  apply (rule raises_bind, rule disjI2, rule allI)
  apply (rule raises_bind, rule disjI2, rule allI)
  apply (rule raises_bind, rule disjI1)
  apply (rule setToleranceAndResolution_unknown_unit [OF assms])
  done

lemma raises_createUpdm:
  assumes "getMUnitsParam p = PyStr u" and "lower u \<notin> fst ` set unitsConversions"
  shows "isl (snd (createUpdm p doc w))"
  unfolding createUpdm_def
  by (rule raises_bind, rule disjI1, rule raises_replaceSpatialReference [OF assms])

lemma never_createUpdm_unknown_unit:
  assumes "getMUnitsParam p = PyStr u" and "lower u \<notin> fst ` set unitsConversions"
  shows "never is_import (createUpdm p doc w)"
  unfolding createUpdm_def
  by (rule never_bind_raises [OF never_replaceSpatialReference
        raises_replaceSpatialReference [OF assms]])

lemma start_unknown_unit:
  assumes "getMUnitsParam p = PyStr u" and "lower u \<notin> fst ` set unitsConversions"
  shows "isl (snd (start p updmXml lrsXml afterImport))"
    and "never is_import (start p updmXml lrsXml afterImport)"
proof -
  show "isl (snd (start p updmXml lrsXml afterImport))"
    unfolding start_def Let_def
    apply (rule raises_finally)
    apply (rule raises_bind, rule disjI2, rule allI)
    apply (rule raises_bind, rule disjI2, rule allI)
    apply (rule raises_bind, rule disjI2, rule allI)
    apply (rule raises_bind, rule disjI2, rule allI)
    apply (rule raises_bind, rule disjI1)
    apply (rule raises_createUpdm [OF assms])
    done
  show "never is_import (start p updmXml lrsXml afterImport)"
    unfolding start_def Let_def
    apply (rule never_finally)
     apply (rule never_bind, simp add: never_basic)
     apply (rule never_bind, simp add: never_basic)
     apply (rule never_bind, rule never_validateInput, simp)
     apply (rule never_bind, rule never_checkNames)
     apply (rule never_bind_raises)
      apply (rule never_createUpdm_unknown_unit [OF assms])
     apply (rule raises_createUpdm [OF assms])
    apply (simp add: never_basic)
    done
qed

lemma raises_bind1: "isl (snd m) \<Longrightarrow> isl (snd (bind_run m f))"
  by (rule raises_bind) simp

lemma raises_bind2: "(\<And>x. isl (snd (f x))) \<Longrightarrow> isl (snd (bind_run m f))"
  by (rule raises_bind) simp

lemma checkTolerance_raises:
  "tol = Inr (PyNum t) \<Longrightarrow> t \<le> 0 \<Longrightarrow> isl (snd (checkTolerance tol m))"
  by (simp add: checkTolerance_def py_le_zero_def logError_def)

lemma validateInput_rejects:
  assumes "invalid_input p"
  shows "isl (snd (validateInput p))"
proof -
  from assms consider
      (gdb) "GetParameterAsText p outputGDBParam = []"
    | (sr) "GetParameter p spatialReferenceParam = PyNone"
    | (xy) t where "getXYToleranceParam p = Inr (PyNum t)" "t \<le> 0"
    | (z) t where "getZToleranceParam p = Inr (PyNum t)" "t \<le> 0"
    | (net) "getEventRegistrationNetworkParamAsText p \<notin> {''ENGINEERING'', ''CONTINUOUS''}"
    by (auto simp: invalid_input_def split: sum.splits pyval.splits)
  then show ?thesis
  proof cases
    case gdb
    then show ?thesis
      unfolding validateInput_def
      by (intro raises_bind1) (simp add: logError_def getOutputGDBParamAsText_def)
  next
    case sr
    then show ?thesis
      unfolding validateInput_def
      apply -
      apply (rule raises_bind2)
      apply (rule raises_bind1)
      apply (simp add: logError_def getSpatialReferenceParam_def Let_def)
      done
  next
    case xy
    then show ?thesis
      unfolding validateInput_def
      apply -
      apply (rule raises_bind2)
      apply (rule raises_bind2)
      apply (rule raises_bind2)
      apply (rule raises_bind1)
      apply (erule (1) checkTolerance_raises)
      done
  next
    case z
    then show ?thesis
      unfolding validateInput_def
      apply -
      apply (rule raises_bind2)
      apply (rule raises_bind2)
      apply (rule raises_bind2)
      apply (rule raises_bind2)
      apply (rule raises_bind1)
      apply (erule (1) checkTolerance_raises)
      done
  next
    case net
    then show ?thesis
      unfolding validateInput_def
      apply -
      apply (rule raises_bind2)
      apply (rule raises_bind2)
      apply (rule raises_bind2)
      apply (rule raises_bind2)
      apply (rule raises_bind2)
      apply (simp add: Let_def logError_def eventRegistrationNetworkValues_def)
      done
  qed
qed


lemma validateInput_ignores_units:
  "validateInput (p\<lparr>GetParameter := (GetParameter p)(mUnitsParam := v),
                     GetParameterAsText := (GetParameterAsText p)(mUnitsParam := s)\<rparr>)
     = validateInput p"
  by (simp add: validateInput_def getOutputGDBParamAsText_def getSpatialReferenceParam_def
      getMUnitsParamAsText_def getXYToleranceParam_def getZToleranceParam_def
      getEventRegistrationNetworkParamAsText_def outputGDBParam_def spatialReferenceParam_def
      mUnitsParam_def xyToleranceParam_def zToleranceParam_def eventRegistrationNetworkParam_def
      Let_def)

text \<open>
  C8, amended. A run with no output geodatabase, no spatial reference, a tolerance that
  is read as a non-positive number, or an event registration network that is none of the
  known values is rejected by \<^verbatim>\<open>validateInput\<close>, and \<^verbatim>\<open>start\<close> then makes no delete and
  no import call: its trace is the opening message, the progressor label, the trace of
  the validation and the closing message. The measure unit has no influence on
  \<^verbatim>\<open>validateInput\<close>. A run whose measure unit is a string that, lower-cased, is no key of
  the conversion table always ends with an exception and never reaches an import call.
\<close>

theorem eager_validation:
  "(invalid_input p \<longrightarrow>
      (\<exists>tv e. validateInput p = (tv, Inl e)
          \<and> start p updmXml lrsXml afterImport
              = ([AddMessage newline, SetProgressorLabel ''Executing Create UPDM Geodatabase...'']
                   @ tv @ [AddMessage newline], Inl e)
          \<and> filter (\<lambda>c. is_import c \<or> is_delete c) (fst (start p updmXml lrsXml afterImport)) = []))
   \<and> validateInput (p\<lparr>GetParameter := (GetParameter p)(mUnitsParam := v),
                       GetParameterAsText := (GetParameterAsText p)(mUnitsParam := s)\<rparr>)
       = validateInput p
   \<and> (getMUnitsParam p = PyStr unit \<and> lower unit \<notin> fst ` set unitsConversions \<longrightarrow>
        isl (snd (start p updmXml lrsXml afterImport))
        \<and> filter is_import (fst (start p updmXml lrsXml afterImport)) = [])"
proof (intro conjI impI)
  assume inv: "invalid_input p"
  then have "isl (snd (validateInput p))" by (rule validateInput_rejects)
  then obtain tv e where v: "validateInput p = (tv, Inl e)"
    by (cases "validateInput p") (auto simp: isl_def)
  have "never (\<lambda>c. is_import c \<or> is_delete c) (validateInput p)"
    by (rule never_validateInput) simp
  with v have clean: "filter (\<lambda>c. is_import c \<or> is_delete c) tv = []"
    by (simp add: never_def)
  have st: "start p updmXml lrsXml afterImport
              = ([AddMessage newline, SetProgressorLabel ''Executing Create UPDM Geodatabase...'']
                   @ tv @ [AddMessage newline], Inl e)"
    by (rule start_validation_fails [OF v])
  with clean
  have "filter (\<lambda>c. is_import c \<or> is_delete c) (fst (start p updmXml lrsXml afterImport)) = []"
    by simp
  with v st
  show "\<exists>tv e. validateInput p = (tv, Inl e)
          \<and> start p updmXml lrsXml afterImport
              = ([AddMessage newline, SetProgressorLabel ''Executing Create UPDM Geodatabase...'']
                   @ tv @ [AddMessage newline], Inl e)
          \<and> filter (\<lambda>c. is_import c \<or> is_delete c) (fst (start p updmXml lrsXml afterImport)) = []"
    by blast
next
  show "validateInput (p\<lparr>GetParameter := (GetParameter p)(mUnitsParam := v),
                       GetParameterAsText := (GetParameterAsText p)(mUnitsParam := s)\<rparr>)
       = validateInput p"
    by (rule validateInput_ignores_units)
next
  assume "getMUnitsParam p = PyStr unit \<and> lower unit \<notin> fst ` set unitsConversions"
  then show "isl (snd (start p updmXml lrsXml afterImport))"
    using start_unknown_unit(1) by blast
next
  assume "getMUnitsParam p = PyStr unit \<and> lower unit \<notin> fst ` set unitsConversions"
  then have "never is_import (start p updmXml lrsXml afterImport)"
    using start_unknown_unit(2) by blast
  then show "filter is_import (fst (start p updmXml lrsXml afterImport)) = []"
    by (simp add: never_def)
qed

theorem eager_validation_witness:
  "start missing_gdb_run updm_example lrs_example (return_run ())
     = ([AddMessage newline, SetProgressorLabel ''Executing Create UPDM Geodatabase...'',
         AddError ''Please provide an Output GDB.'', AddMessage newline],
        Inl (ExecuteError ''Please provide an Output GDB.''))
   \<and> isl (snd (start furlongs_run updm_example lrs_example (return_run ())))
   \<and> filter is_import (fst (start furlongs_run updm_example lrs_example (return_run ()))) = []"
proof -
  have inv: "invalid_input missing_gdb_run"
    by (simp add: invalid_input_def missing_gdb_run_def)
  have v: "validateInput missing_gdb_run
             = ([AddError ''Please provide an Output GDB.''],
                Inl (ExecuteError ''Please provide an Output GDB.''))"
    by (simp add: validateInput_def bind_run_def logError_def getOutputGDBParamAsText_def
        missing_gdb_run_def)
  have u: "getMUnitsParam furlongs_run = PyStr ''FURLONGS''
           \<and> lower ''FURLONGS'' \<notin> fst ` set unitsConversions"
    by (simp add: getMUnitsParam_def furlongs_run_def mUnitsParam_def is_unset_def py_eq_zero_def
        unitsConversions_def lower_def lower_char_def char_of_def bit_iff_odd)
  from eager_validation [of missing_gdb_run updm_example lrs_example "return_run ()"] inv v
  have a: "start missing_gdb_run updm_example lrs_example (return_run ())
     = ([AddMessage newline, SetProgressorLabel ''Executing Create UPDM Geodatabase...'',
         AddError ''Please provide an Output GDB.'', AddMessage newline],
        Inl (ExecuteError ''Please provide an Output GDB.''))"
    by auto
  from eager_validation [of furlongs_run updm_example lrs_example "return_run ()" _ _ "''FURLONGS''"] u
  have b: "isl (snd (start furlongs_run updm_example lrs_example (return_run ())))
   \<and> filter is_import (fst (start furlongs_run updm_example lrs_example (return_run ()))) = []"
    by blast
  from a b show ?thesis by simp
qed

section \<open>Spatial reference substitution\<close>

lemma iter_paths_from_zip:
  "iter_paths_from tg i cs
     = concat (map (\<lambda>(j, c). map ((#) j) (iter_paths tg c)) (zip [i ..< i + length cs] cs))"
proof (induction cs arbitrary: i)
  case Nil
  then show ?case by simp
next
  case (Cons c cs)
  have "[i ..< i + length (c # cs)] = i # [Suc i ..< Suc i + length cs]"
    by (subst upt_conv_Cons) simp_all
  with Cons.IH [of "Suc i"] show ?case by (simp del: upt_Suc)
qed

lemma iter_paths_Elem:
  "iter_paths tg (Elem t a x l cs)
     = (if t = tg then [[]] else [])
       @ concat (map (\<lambda>(j, c). map ((#) j) (iter_paths tg c)) (zip [0 ..< length cs] cs))"
  by (simp add: iter_paths_from_zip del: upt_Suc)

lemma in_zip_upt: "(j, c) \<in> set (zip [0 ..< length cs] cs) \<longleftrightarrow> j < length cs \<and> c = cs ! j"
proof
  assume "(j, c) \<in> set (zip [0 ..< length cs] cs)"
  then obtain i where "i < length cs" "j = [0 ..< length cs] ! i" "c = cs ! i"
    by (auto simp: set_zip)
  then show "j < length cs \<and> c = cs ! j" by simp
next
  assume "j < length cs \<and> c = cs ! j"
  then have "j < length cs" "j = [0 ..< length cs] ! j" "c = cs ! j" by simp_all
  then have "\<exists>i. (j, c) = ([0 ..< length cs] ! i, cs ! i)
               \<and> i < min (length [0 ..< length cs]) (length cs)"
    by (intro exI [of _ j]) simp
  then show "(j, c) \<in> set (zip [0 ..< length cs] cs)"
    unfolding set_zip by blast
qed

lemma iter_paths_subtree:
  "p \<in> set (iter_paths tg e) \<longleftrightarrow> (\<exists>e'. subtree e p = Some e' \<and> tag e' = tg)"
proof (induction e arbitrary: p)
  case (Elem t a x l cs)
  show ?case
  proof (cases p)
    case Nil
    then show ?thesis by (auto simp: iter_paths_Elem simp del: iter_paths.simps)
  next
    case (Cons j p')
    have "p \<in> set (iter_paths tg (Elem t a x l cs))
            \<longleftrightarrow> (\<exists>(k, c) \<in> set (zip [0 ..< length cs] cs). k = j \<and> p' \<in> set (iter_paths tg c))"
      using Cons by (auto simp: iter_paths_Elem simp del: iter_paths.simps)
    also have "\<dots> \<longleftrightarrow> (j < length cs \<and> p' \<in> set (iter_paths tg (cs ! j)))"
      using in_zip_upt [of j _ cs] by auto
    also have "\<dots> \<longleftrightarrow> (j < length cs \<and> (\<exists>e'. subtree (cs ! j) p' = Some e' \<and> tag e' = tg))"
      using Elem.IH [of "cs ! j" p'] by auto
    also have "\<dots> \<longleftrightarrow> (\<exists>e'. subtree (Elem t a x l cs) p = Some e' \<and> tag e' = tg)"
      using Cons by simp
    finally show ?thesis .
  qed
qed

lemma subtree_append:
  "subtree e (q @ [i])
     = (case subtree e q of
          None \<Rightarrow> None
        | Some e' \<Rightarrow> if i < length (children e') then Some (children e' ! i) else None)"
  by (induction e q rule: subtree.induct) auto

lemma replace_loop_slots:
  "\<forall>p \<in> set ps. p \<noteq> [] \<and> subtree doc p \<noteq> None
   \<Longrightarrow> replace_loop doc ps acc = Inr (acc @ map (\<lambda>p. (butlast p, last p)) ps)"
  by (induction ps arbitrary: acc) (auto simp: xmlParentMap_def)


lemma rebuild_children_zip:
  "rebuild_children new slots q i cs
     = map (\<lambda>(j, c). if (q, j) \<in> set slots then new else rebuild new slots (q @ [j]) c)
         (zip [i ..< i + length cs] cs)"
proof (induction cs arbitrary: i)
  case Nil
  then show ?case by simp
next
  case (Cons c cs)
  have "[i ..< i + length (c # cs)] = i # [Suc i ..< Suc i + length cs]"
    by (subst upt_conv_Cons) simp_all
  with Cons.IH [of "Suc i"] show ?case by (simp del: upt_Suc)
qed

lemma rebuild_Elem:
  "rebuild new slots q (Elem t a x l cs)
     = Elem t a x l
         (map (\<lambda>(j, c). if (q, j) \<in> set slots then new else rebuild new slots (q @ [j]) c)
            (zip [0 ..< length cs] cs))"
  by (simp add: rebuild_children_zip del: upt_Suc)

lemma map_zip_upt:
  assumes "\<And>j. j < length cs \<Longrightarrow> F j (cs ! j) = f (cs ! j)"
  shows "map (\<lambda>(j, c). F j c) (zip [0 ..< length cs] cs) = map f cs"
proof (rule nth_equalityI)
  show "length (map (\<lambda>(j, c). F j c) (zip [0 ..< length cs] cs)) = length (map f cs)"
    by simp
next
  fix i assume "i < length (map (\<lambda>(j, c). F j c) (zip [0 ..< length cs] cs))"
  then have i: "i < length cs" by simp
  then show "map (\<lambda>(j, c). F j c) (zip [0 ..< length cs] cs) ! i = map f cs ! i"
    using assms [OF i] by simp
qed

lemma rebuild_replace_outermost:
  assumes slots: "\<And>q i. (q, i) \<in> set slots
            \<longleftrightarrow> (\<exists>c. subtree doc (q @ [i]) = Some c \<and> tag c = ''SpatialReference'')"
  shows "subtree doc q = Some e \<Longrightarrow> rebuild new slots q e = replace_outermost new e"
proof (induction e arbitrary: q)
  case (Elem t a x l cs)
  have "map (\<lambda>(j, c). if (q, j) \<in> set slots then new else rebuild new slots (q @ [j]) c)
          (zip [0 ..< length cs] cs)
        = map (\<lambda>c. if tag c = ''SpatialReference'' then new else replace_outermost new c) cs"
  proof (rule map_zip_upt)
    fix j assume j: "j < length cs"
    with Elem.prems have sub: "subtree doc (q @ [j]) = Some (cs ! j)"
      by (simp add: subtree_append)
    then have "(q, j) \<in> set slots \<longleftrightarrow> tag (cs ! j) = ''SpatialReference''"
      by (simp add: slots)
    moreover have "rebuild new slots (q @ [j]) (cs ! j) = replace_outermost new (cs ! j)"
      using j sub by (intro Elem.IH) simp_all
    ultimately
    show "(if (q, j) \<in> set slots then new else rebuild new slots (q @ [j]) (cs ! j))
          = (if tag (cs ! j) = ''SpatialReference'' then new else replace_outermost new (cs ! j))"
      by simp
  qed
  then show ?case by (simp only: rebuild_Elem replace_outermost.simps)
qed

lemma replace_all_outermost:
  assumes "tag doc \<noteq> ''SpatialReference''"
  shows "replace_all (Some new) doc = Inr (replace_outermost new doc)"
proof -
  let ?ps = "iter_paths ''SpatialReference'' doc"
  have ok: "\<forall>p \<in> set ?ps. p \<noteq> [] \<and> subtree doc p \<noteq> None"
    using assms by (auto simp: iter_paths_subtree)
  then have loop: "replace_loop doc ?ps [] = Inr (map (\<lambda>p. (butlast p, last p)) ?ps)"
    using replace_loop_slots [of ?ps doc "[]"] by simp
  have slots: "\<And>q i. (q, i) \<in> set (map (\<lambda>p. (butlast p, last p)) ?ps)
            \<longleftrightarrow> (\<exists>c. subtree doc (q @ [i]) = Some c \<and> tag c = ''SpatialReference'')"
  proof -
    fix q i
    have "(q, i) \<in> set (map (\<lambda>p. (butlast p, last p)) ?ps) \<longleftrightarrow> q @ [i] \<in> set ?ps"
    proof
      assume "(q, i) \<in> set (map (\<lambda>p. (butlast p, last p)) ?ps)"
      then obtain p where p: "p \<in> set ?ps" "q = butlast p" "i = last p" by auto
      with ok have "p \<noteq> []" by blast
      with p show "q @ [i] \<in> set ?ps" by simp
    next
      assume "q @ [i] \<in> set ?ps"
      then have "(butlast (q @ [i]), last (q @ [i])) \<in> set (map (\<lambda>p. (butlast p, last p)) ?ps)"
        unfolding set_map by (rule imageI)
      then show "(q, i) \<in> set (map (\<lambda>p. (butlast p, last p)) ?ps)" by simp
    qed
    then show "(q, i) \<in> set (map (\<lambda>p. (butlast p, last p)) ?ps)
            \<longleftrightarrow> (\<exists>c. subtree doc (q @ [i]) = Some c \<and> tag c = ''SpatialReference'')"
      by (simp add: iter_paths_subtree)
  qed
  have "rebuild new (map (\<lambda>p. (butlast p, last p)) ?ps) [] doc = replace_outermost new doc"
    by (rule rebuild_replace_outermost [OF slots]) simp
  with loop show ?thesis by (simp add: replace_all_def)
qed

lemma replace_all_root:
  "tag doc = ''SpatialReference'' \<Longrightarrow> replace_all new doc = Inl KeyError"
  by (cases doc) (simp add: replace_all_def xmlParentMap_def)


lemma zip_upt_nth:
  "map (\<lambda>(j, c). F j c) (zip [0 ..< length cs] cs) = map (\<lambda>j. F j (cs ! j)) [0 ..< length cs]"
  by (rule nth_equalityI) simp_all

lemma iter_elem_split:
  "iter_elem tg e = (if tag e = tg then [e] else []) @ below_elem tg e"
  by (cases e) (simp add: below_elem_def)

lemma tag_replace_outermost [simp]: "tag (replace_outermost new e) = tag e"
  by (cases e) simp

lemma children_replace_outermost:
  "children (replace_outermost new e)
     = map (\<lambda>c. if tag c = ''SpatialReference'' then new else replace_outermost new c) (children e)"
  by (cases e) simp

lemma length_iter_paths: "length (iter_paths tg e) = length (iter_elem tg e)"
proof (induction e)
  case (Elem t a x l cs)
  have "map (\<lambda>(j, c). length (map ((#) j) (iter_paths tg c))) (zip [0 ..< length cs] cs)
          = map (\<lambda>c. length (iter_elem tg c)) cs"
    by (rule map_zip_upt) (simp add: Elem.IH)
  then have "sum_list (map (\<lambda>(j, c). length (map ((#) j) (iter_paths tg c))) (zip [0 ..< length cs] cs))
          = sum_list (map (\<lambda>c. length (iter_elem tg c)) cs)"
    by simp
  then show ?case
    by (simp add: iter_paths_Elem length_concat o_def split_def del: iter_paths.simps)
qed

lemma sr_flat_child:
  assumes "sr_flat e" and "c \<in> set (children e)"
  shows "sr_flat c"
    and "tag c = ''SpatialReference'' \<Longrightarrow> below_elem ''SpatialReference'' c = []"
proof -
  have sub: "set (iter_elem ''SpatialReference'' c) \<subseteq> set (iter_elem ''SpatialReference'' e)"
    using assms(2) by (cases e) auto
  with assms(1) show "sr_flat c"
    by (auto simp: sr_flat_def list_all_iff)
  assume "tag c = ''SpatialReference''"
  then have "c \<in> set (iter_elem ''SpatialReference'' c)"
    by (simp add: iter_elem_split)
  with sub assms(1) show "below_elem ''SpatialReference'' c = []"
    by (auto simp: sr_flat_def list_all_iff)
qed

lemma iter_paths_leaf:
  assumes "below_elem tg e = []"
  shows "iter_paths tg e = (if tag e = tg then [[]] else [])"
proof -
  have "length (iter_paths tg e) = (if tag e = tg then 1 else 0)"
    using assms by (simp add: length_iter_paths iter_elem_split)
  moreover have "tag e = tg \<Longrightarrow> hd (iter_paths tg e) = []"
    by (cases e) simp
  ultimately show ?thesis
    by (cases "iter_paths tg e") (auto split: if_splits)
qed

lemma below_replace_outermost:
  assumes new: "tag new = ''SpatialReference''" "below_elem ''SpatialReference'' new = []"
  shows "sr_flat e \<Longrightarrow>
         below_elem ''SpatialReference'' (replace_outermost new e)
           = replicate (length (below_elem ''SpatialReference'' e)) new"
proof (induction e)
  case (Elem t a x l cs)
  have each: "\<And>c. c \<in> set cs \<Longrightarrow>
      iter_elem ''SpatialReference''
          (if tag c = ''SpatialReference'' then new else replace_outermost new c)
        = replicate (length (iter_elem ''SpatialReference'' c)) new"
  proof -
    fix c assume c: "c \<in> set cs"
    then have flat: "sr_flat c"
      and leaf: "tag c = ''SpatialReference'' \<Longrightarrow> below_elem ''SpatialReference'' c = []"
      using sr_flat_child [OF Elem.prems, of c] by simp_all
    show "iter_elem ''SpatialReference''
          (if tag c = ''SpatialReference'' then new else replace_outermost new c)
        = replicate (length (iter_elem ''SpatialReference'' c)) new"
    proof (cases "tag c = ''SpatialReference''")
      case True
      with leaf new show ?thesis by (simp add: iter_elem_split)
    next
      case False
      with Elem.IH [OF c flat] show ?thesis by (simp add: iter_elem_split)
    qed
  qed
  have "below_elem ''SpatialReference'' (replace_outermost new (Elem t a x l cs))
          = concat (map (\<lambda>c. replicate (length (iter_elem ''SpatialReference'' c)) new) cs)"
    using each by (simp add: below_elem_def o_def cong: map_cong)
  also have "\<dots> = replicate (length (concat (map (iter_elem ''SpatialReference'') cs))) new"
    by (induction cs) (simp_all add: replicate_add)
  finally show ?case by (simp add: below_elem_def)
qed

lemma iter_paths_replace_outermost:
  assumes new: "tag new = ''SpatialReference''" "below_elem ''SpatialReference'' new = []"
  shows "sr_flat e \<Longrightarrow>
         iter_paths ''SpatialReference'' (replace_outermost new e)
           = iter_paths ''SpatialReference'' e"
proof (induction e)
  case (Elem t a x l cs)
  let ?f = "\<lambda>c. if tag c = ''SpatialReference'' then new else replace_outermost new c"
  have each: "\<And>j. j < length cs \<Longrightarrow>
      iter_paths ''SpatialReference'' (?f (cs ! j)) = iter_paths ''SpatialReference'' (cs ! j)"
  proof -
    fix j assume "j < length cs"
    then have c: "cs ! j \<in> set cs" by simp
    then have flat: "sr_flat (cs ! j)"
      and leaf: "tag (cs ! j) = ''SpatialReference''
                   \<Longrightarrow> below_elem ''SpatialReference'' (cs ! j) = []"
      using sr_flat_child [OF Elem.prems, of "cs ! j"] by simp_all
    show "iter_paths ''SpatialReference'' (?f (cs ! j)) = iter_paths ''SpatialReference'' (cs ! j)"
    proof (cases "tag (cs ! j) = ''SpatialReference''")
      case True
      with leaf new show ?thesis by (simp add: iter_paths_leaf)
    next
      case False
      with Elem.IH [OF c flat] show ?thesis by simp
    qed
  qed
  have "map (\<lambda>(j, c). map ((#) j) (iter_paths ''SpatialReference'' c))
          (zip [0 ..< length (map ?f cs)] (map ?f cs))
        = map (\<lambda>j. map ((#) j) (iter_paths ''SpatialReference'' (map ?f cs ! j)))
            [0 ..< length (map ?f cs)]"
    by (rule zip_upt_nth)
  also have "\<dots> = map (\<lambda>j. map ((#) j) (iter_paths ''SpatialReference'' (cs ! j))) [0 ..< length cs]"
    using each by (simp cong: map_cong)
  also have "\<dots> = map (\<lambda>(j, c). map ((#) j) (iter_paths ''SpatialReference'' c))
                    (zip [0 ..< length cs] cs)"
    by (rule zip_upt_nth [symmetric])
  finally show ?case
    by (simp only: replace_outermost.simps iter_paths_Elem)
qed

lemma blank_replace_outermost:
  assumes "tag new = ''SpatialReference''"
  shows "replace_outermost ph (replace_outermost new e) = replace_outermost ph e"
proof (induction e)
  case (Elem t a x l cs)
  have "\<And>c. c \<in> set cs \<Longrightarrow>
      (let c' = (if tag c = ''SpatialReference'' then new else replace_outermost new c)
       in if tag c' = ''SpatialReference'' then ph else replace_outermost ph c')
      = (if tag c = ''SpatialReference'' then ph else replace_outermost ph c)"
    using assms Elem.IH by simp
  then show ?case by (simp add: Let_def o_def cong: map_cong)
qed

lemma bind_run_Inr:
  "snd (bind_run m f) = Inr y \<Longrightarrow> \<exists>x. snd m = Inr x \<and> snd (f x) = Inr y"
  by (cases m) (auto simp: bind_run_def split: sum.splits prod.splits)

lemma finally_run_Inr: "snd (finally_run m h) = Inr y \<Longrightarrow> snd m = Inr y"
  by (cases m; cases h) (auto simp: finally_run_def split: sum.splits)

lemma tag_set_text_iter [simp]: "tag (set_text_iter tg s e) = tag e"
  by (cases e) simp

lemma iter_elem_set_text_iter:
  "iter_elem tg (set_text_iter tg' s e) = map (set_text_iter tg' s) (iter_elem tg e)"
  by (induction e) (simp add: map_concat o_def cong: map_cong)

lemma below_elem_set_text_iter:
  "below_elem tg e = [] \<Longrightarrow> below_elem tg (set_text_iter tg' s e) = []"
proof -
  assume "below_elem tg e = []"
  then have "\<forall>c \<in> set (children e). iter_elem tg c = []"
    by (simp add: below_elem_def)
  then have "\<forall>c \<in> set (children e). iter_elem tg (set_text_iter tg' s c) = []"
    by (simp add: iter_elem_set_text_iter)
  then show ?thesis
    by (cases e) (simp add: below_elem_def)
qed

lemma setTandR_fragment:
  assumes "setTandR p tol a b x = Inr y"
  shows "\<exists>e e'. x = Some e \<and> y = Some e' \<and> tag e' = tag e
           \<and> (below_elem tg e = [] \<longrightarrow> below_elem tg e' = [])"
  using assms
  by (auto simp: setTandR_def Let_def below_elem_set_text_iter
      split: sum.splits option.splits if_splits)

lemma setToleranceAndResolution_fragment:
  assumes "snd (setToleranceAndResolution p x m) = Inr y"
  shows "\<exists>e e'. x = Some e \<and> y = Some e' \<and> tag e' = tag e
           \<and> (below_elem tg e = [] \<longrightarrow> below_elem tg e' = [])"
proof -
  from assms obtain x1 x2 v1 v2 v3 where
      s1: "setTandR p v1 ''XYTolerance'' ''XYScale'' x = Inr x1"
    and s2: "setTandR p v2 ''ZTolerance'' ''ZScale'' x1 = Inr x2"
    and s3: "setTandR p v3 ''MTolerance'' ''MScale'' x2 = Inr y"
    unfolding setToleranceAndResolution_def Let_def
    by (fastforce dest!: bind_run_Inr simp: lift_run_def)
  from setTandR_fragment [OF s1, of tg] setTandR_fragment [OF s2, of tg]
    setTandR_fragment [OF s3, of tg]
  show ?thesis by auto
qed

lemma getSpatialReferenceXML_fragment:
  assumes "snd (getSpatialReferenceXML p sr) = Inr x"
  shows "x = (case iter_elem ''SpatialReference'' (exportedDocument p sr) of
                [] \<Rightarrow> None | s # _ \<Rightarrow> Some s)"
proof -
  from assms show ?thesis
    unfolding getSpatialReferenceXML_def Let_def
    by (fastforce dest!: finally_run_Inr bind_run_Inr simp: return_run_def)
qed

lemma replaceSpatialReference_fragment:
  assumes ret: "snd (replaceSpatialReference p doc) = Inr doc'"
    and flat: "sr_flat (exportedDocument p (getSpatialReferenceParam p))"
  shows "(\<exists>new. replace_all (Some new) doc = Inr doc' \<and> tag new = ''SpatialReference''
            \<and> below_elem ''SpatialReference'' new = [])
         \<or> (replace_all None doc = Inr doc')"
proof -
  from ret obtain x m y where
      gx: "snd (getSpatialReferenceXML p (getSpatialReferenceParam p)) = Inr x"
    and st: "snd (setToleranceAndResolution p x m) = Inr y"
    and ra: "replace_all y doc = Inr doc'"
    unfolding replaceSpatialReference_def Let_def
    by (fastforce dest!: bind_run_Inr simp: lift_run_def)
  from setToleranceAndResolution_fragment [OF st, of "''SpatialReference''"]
  obtain e e' where x: "x = Some e" and y: "y = Some e'" and tg: "tag e' = tag e"
    and bel: "below_elem ''SpatialReference'' e = [] \<longrightarrow> below_elem ''SpatialReference'' e' = []"
    by blast
  from getSpatialReferenceXML_fragment [OF gx] x
  obtain rest where it: "iter_elem ''SpatialReference''
      (exportedDocument p (getSpatialReferenceParam p)) = e # rest"
    by (auto split: list.splits)
  then have mem: "e \<in> set (iter_elem ''SpatialReference''
      (exportedDocument p (getSpatialReferenceParam p)))" by simp
  have iter_tag: "\<And>d u. u \<in> set (iter_elem ''SpatialReference'' d) \<Longrightarrow> tag u = ''SpatialReference''"
  proof -
    fix d :: elem and u
    show "u \<in> set (iter_elem ''SpatialReference'' d) \<Longrightarrow> tag u = ''SpatialReference''"
      by (induction d) (auto split: if_splits)
  qed
  from mem have "tag e = ''SpatialReference''" by (rule iter_tag)
  moreover from mem flat have "below_elem ''SpatialReference'' e = []"
    by (auto simp: sr_flat_def list_all_iff)
  ultimately show ?thesis using ra y tg bel by auto
qed

lemma replace_loop_nonempty:
  "replace_loop doc ps acc = Inr slots \<Longrightarrow> ps \<noteq> [] \<Longrightarrow> slots \<noteq> []"
proof (induction ps arbitrary: acc)
  case Nil
  then show ?case by simp
next
  case (Cons p ps)
  show ?case
  proof (cases ps)
    case Nil
    with Cons.prems show ?thesis by (auto split: option.splits)
  next
    case (Cons p' ps')
    with Cons.prems Cons.IH show ?thesis by (auto split: option.splits)
  qed
qed

lemma substitution_loop:
  assumes "tag doc \<noteq> ''SpatialReference''" and "sr_flat doc"
    and "tag new = ''SpatialReference''" and "below_elem ''SpatialReference'' new = []"
  shows "\<exists>doc'. replace_all (Some new) doc = Inr doc'
           \<and> doc' = replace_outermost new doc
           \<and> iter_paths ''SpatialReference'' doc' = iter_paths ''SpatialReference'' doc
           \<and> iter_elem ''SpatialReference'' doc'
               = replicate (length (iter_elem ''SpatialReference'' doc)) new
           \<and> length (iter_elem ''SpatialReference'' doc')
               = length (iter_elem ''SpatialReference'' doc)
           \<and> blank_sr doc' = blank_sr doc"
proof -
  let ?doc' = "replace_outermost new doc"
  have a: "replace_all (Some new) doc = Inr ?doc'"
    by (rule replace_all_outermost [OF assms(1)])
  have b: "iter_paths ''SpatialReference'' ?doc' = iter_paths ''SpatialReference'' doc"
    by (rule iter_paths_replace_outermost [OF assms(3,4,2)])
  have c: "iter_elem ''SpatialReference'' ?doc'
               = replicate (length (iter_elem ''SpatialReference'' doc)) new"
    using below_replace_outermost [OF assms(3,4,2)] assms(1)
    by (simp add: iter_elem_split)
  have d: "blank_sr ?doc' = blank_sr doc"
    unfolding blank_sr_def by (rule blank_replace_outermost [OF assms(3)])
  from a b c d show ?thesis by simp
qed

text \<open>
  C3, as stated, fails on a document in which a \<open>SpatialReference\<close> element lies inside
  another one: both are in the list the loop walks, the outer one is replaced in the
  document, and the inner one is then replaced inside the detached outer element. The
  document below has two such elements before the loop and one after it.
\<close>

theorem nested_spatial_reference_counterexample:
  "length (iter_elem ''SpatialReference'' nested_doc) = 2
   \<and> replace_all (Some sr_fragment) nested_doc = Inr (node ''esri:Workspace'' [sr_fragment])
   \<and> length (iter_elem ''SpatialReference'' (node ''esri:Workspace'' [sr_fragment])) = 1"
  by (simp add: nested_doc_def sr_fragment_def node_def leaf_def replace_all_def xmlParentMap_def)

text \<open>
  C3, amended. Let the root of the document not be a \<open>SpatialReference\<close> element and let
  no \<open>SpatialReference\<close> element of the document lie inside another one. For a fragment
  that is a \<open>SpatialReference\<close> element with no such element below it, the loop returns
  a document that has its \<open>SpatialReference\<close> elements at the same positions (the same
  index under the same parent, in the same document order) as the input, as many as the
  input, each equal to the fragment, and that is equal to the input outside these
  elements, so the order of all other siblings is unchanged. The same holds for the
  document that \<^verbatim>\<open>replaceSpatialReference\<close> returns, with the fragment it has generated,
  when the exported scratch document has no nested \<open>SpatialReference\<close> elements.
\<close>

theorem substitution_preserves_positions:
  assumes "tag doc \<noteq> ''SpatialReference''" and "sr_flat doc"
  shows "(tag new = ''SpatialReference'' \<and> below_elem ''SpatialReference'' new = [] \<longrightarrow>
            (\<exists>doc'. replace_all (Some new) doc = Inr doc'
               \<and> iter_paths ''SpatialReference'' doc' = iter_paths ''SpatialReference'' doc
               \<and> iter_elem ''SpatialReference'' doc'
                   = replicate (length (iter_elem ''SpatialReference'' doc)) new
               \<and> length (iter_elem ''SpatialReference'' doc')
                   = length (iter_elem ''SpatialReference'' doc)
               \<and> blank_sr doc' = blank_sr doc))
       \<and> (sr_flat (exportedDocument p (getSpatialReferenceParam p))
            \<and> iter_elem ''SpatialReference'' doc \<noteq> []
            \<and> snd (replaceSpatialReference p doc) = Inr updmXml \<longrightarrow>
            (\<exists>fragment. tag fragment = ''SpatialReference''
               \<and> iter_paths ''SpatialReference'' updmXml = iter_paths ''SpatialReference'' doc
               \<and> iter_elem ''SpatialReference'' updmXml
                   = replicate (length (iter_elem ''SpatialReference'' doc)) fragment
               \<and> length (iter_elem ''SpatialReference'' updmXml)
                   = length (iter_elem ''SpatialReference'' doc)
               \<and> blank_sr updmXml = blank_sr doc))"
proof (intro conjI impI)
  assume "tag new = ''SpatialReference'' \<and> below_elem ''SpatialReference'' new = []"
  with substitution_loop [OF assms, of new]
  show "\<exists>doc'. replace_all (Some new) doc = Inr doc'
               \<and> iter_paths ''SpatialReference'' doc' = iter_paths ''SpatialReference'' doc
               \<and> iter_elem ''SpatialReference'' doc'
                   = replicate (length (iter_elem ''SpatialReference'' doc)) new
               \<and> length (iter_elem ''SpatialReference'' doc')
                   = length (iter_elem ''SpatialReference'' doc)
               \<and> blank_sr doc' = blank_sr doc"
    by blast
next
  assume h: "sr_flat (exportedDocument p (getSpatialReferenceParam p))
            \<and> iter_elem ''SpatialReference'' doc \<noteq> []
            \<and> snd (replaceSpatialReference p doc) = Inr updmXml"
  have ne: "iter_paths ''SpatialReference'' doc \<noteq> []"
    using h length_iter_paths [of "''SpatialReference''" doc] by auto
  have none: "replace_all None doc \<noteq> Inr updmXml"
    using ne by (auto simp: replace_all_def split: sum.splits dest: replace_loop_nonempty)
  from replaceSpatialReference_fragment [of p doc updmXml] h none
  obtain new where n: "replace_all (Some new) doc = Inr updmXml"
    "tag new = ''SpatialReference''" "below_elem ''SpatialReference'' new = []"
    by blast
  from substitution_loop [OF assms n(2,3)] n
  show "\<exists>fragment. tag fragment = ''SpatialReference''
               \<and> iter_paths ''SpatialReference'' updmXml = iter_paths ''SpatialReference'' doc
               \<and> iter_elem ''SpatialReference'' updmXml
                   = replicate (length (iter_elem ''SpatialReference'' doc)) fragment
               \<and> length (iter_elem ''SpatialReference'' updmXml)
                   = length (iter_elem ''SpatialReference'' doc)
               \<and> blank_sr updmXml = blank_sr doc"
    by auto
qed

theorem substitution_preserves_positions_witness:
  "iter_paths ''SpatialReference'' flat_doc = [[0, 1], [0, 2, 0, 1]]
   \<and> replace_all (Some sr_fragment) flat_doc
       = Inr (node ''esri:Workspace''
                [node ''DataElement''
                   [leaf ''Name'' ''P_Valve'',
                    sr_fragment,
                    node ''Fields''
                      [node ''GeometryDef'' [leaf ''AvgNumPoints'' ''0'', sr_fragment]]]])
   \<and> (\<exists>doc'. replace_all (Some sr_fragment) flat_doc = Inr doc'
         \<and> iter_paths ''SpatialReference'' doc' = [[0, 1], [0, 2, 0, 1]]
         \<and> iter_elem ''SpatialReference'' doc' = [sr_fragment, sr_fragment]
         \<and> blank_sr doc' = blank_sr flat_doc)
   \<and> snd (replaceSpatialReference defaults_run flat_doc)
       = Inr (node ''esri:Workspace''
                [node ''DataElement''
                   [leaf ''Name'' ''P_Valve'',
                    node ''SpatialReference'' [],
                    node ''Fields''
                      [node ''GeometryDef'' [leaf ''AvgNumPoints'' ''0'',
                                             node ''SpatialReference'' []]]]])"
proof -
  have a: "tag flat_doc \<noteq> ''SpatialReference''"
    by (simp add: flat_doc_def node_def)
  have b: "sr_flat flat_doc"
    by (simp add: sr_flat_def below_elem_def flat_doc_def node_def leaf_def)
  have c: "tag sr_fragment = ''SpatialReference'' \<and> below_elem ''SpatialReference'' sr_fragment = []"
    by (simp add: below_elem_def sr_fragment_def node_def leaf_def)
  have e: "replace_all (Some sr_fragment) flat_doc
       = Inr (node ''esri:Workspace''
                [node ''DataElement''
                   [leaf ''Name'' ''P_Valve'',
                    sr_fragment,
                    node ''Fields''
                      [node ''GeometryDef'' [leaf ''AvgNumPoints'' ''0'', sr_fragment]]]])"
    by (simp add: flat_doc_def sr_fragment_def node_def leaf_def replace_all_def xmlParentMap_def)
  have f: "iter_paths ''SpatialReference'' flat_doc = [[0, 1], [0, 2, 0, 1]]"
    by (simp add: flat_doc_def node_def leaf_def)
  have g: "length (iter_elem ''SpatialReference'' flat_doc) = Suc (Suc 0)"
    by (simp add: flat_doc_def node_def leaf_def)
  have r: "snd (replaceSpatialReference defaults_run flat_doc)
       = Inr (node ''esri:Workspace''
                [node ''DataElement''
                   [leaf ''Name'' ''P_Valve'',
                    node ''SpatialReference'' [],
                    node ''Fields''
                      [node ''GeometryDef'' [leaf ''AvgNumPoints'' ''0'',
                                             node ''SpatialReference'' []]]]])"
    by (simp add: replaceSpatialReference_def getSpatialReferenceXML_def bind_run_def log_def
        finally_run_def platform_call_def deleteGdbItem_def deleteFile_def except_handle_def
        return_run_def lift_run_def getSpatialReferenceParam_def spatialReferenceParam_def
        getMetersPerUnit_def setToleranceAndResolution_def getMUnitsParam_def mUnitsParam_def
        getXYToleranceParam_def getZToleranceParam_def xyToleranceParam_def zToleranceParam_def
        is_unset_def py_eq_zero_def sr_attr_def py_num_def
        convertUnits_to_def convertUnits_def convertUnits_body_def except_reraise_def
        unitsConversions_def lower_def lower_char_def char_of_def bit_iff_odd setTandR_def replace_all_def
        xmlParentMap_def defaults_run_def flat_doc_def node_def leaf_def Let_def)
  from substitution_preserves_positions [OF a b, of sr_fragment] c
  have "\<exists>doc'. replace_all (Some sr_fragment) flat_doc = Inr doc'
         \<and> iter_paths ''SpatialReference'' doc' = iter_paths ''SpatialReference'' flat_doc
         \<and> iter_elem ''SpatialReference'' doc'
               = replicate (length (iter_elem ''SpatialReference'' flat_doc)) sr_fragment
         \<and> blank_sr doc' = blank_sr flat_doc"
    by blast
  with f g have h: "\<exists>doc'. replace_all (Some sr_fragment) flat_doc = Inr doc'
         \<and> iter_paths ''SpatialReference'' doc' = [[0, 1], [0, 2, 0, 1]]
         \<and> iter_elem ''SpatialReference'' doc' = [sr_fragment, sr_fragment]
         \<and> blank_sr doc' = blank_sr flat_doc"
    by simp
  from f e h r show ?thesis by blast
qed

end
